theory Spec2Isabelle
  imports Complex_Main "HOL-Library.AList"
begin

section \<open>JavaScript values\<close>

text \<open>
  The engine is JavaScript. Its numbers are modelled by exact values: \<open>int\<close> where the
  source only ever stores integers (hit points, stats, stage counters, durations, damage
  amounts, which all come out of \<open>Math.floor\<close>), and \<open>rat\<close> for everything that can be
  fractional (random draws, accuracies, powers, multipliers). Rounding of doubles, NaN and
  Infinity are not modelled. \<open>undefined\<close>/\<open>null\<close> is \<open>None\<close>; a \<open>TypeError\<close> raised by a
  property read on \<open>undefined\<close> and a thrown \<open>Error\<close> are the left injection of a sum, and so
  is \<open>NoReturn\<close>, the outcome of a call that loops for ever.
\<close>

datatype js_error = TypeError | Error string | NoReturn

text \<open>Decimal rendering of an integer, as a template string prints it.\<close>

definition digit :: "nat \<Rightarrow> char" where
  "digit n = ''0123456789'' ! n"

fun showNat :: "nat \<Rightarrow> string" where
  "showNat n = (if n < 10 then [digit n] else showNat (n div 10) @ [digit (n mod 10)])"

declare showNat.simps [simp del]

definition showInt :: "int \<Rightarrow> string" where
  "showInt i = (if i < 0 then CHR ''-'' # showNat (nat (- i)) else showNat (nat i))"

definition showOpt :: "string option \<Rightarrow> string" where
  "showOpt s = (case s of None \<Rightarrow> ''undefined'' | Some x \<Rightarrow> x)"

section \<open>Data model (core/state.js, core/factory.js, the DSL of effects/index.js)\<close>

text \<open>The \<open>data\<close> object of an effect: the fields the engine reads from it.\<close>

record edata =
  itemId :: "string option"
  d_moveId :: "string option"
  mode :: "string option"
  sourceId :: "string option"
  turns :: "int option"

datatype dur = DNum int | DRange int int

datatype cond =
  TargetHasStatus string
| TargetHpLt "rat option"
| FieldHasStatus string
| WeatherIsSunny
| WeatherIsRaining
| WeatherIsHail
| WeatherIsSandstorm
| UserType string
| UserHasStatus string
| TargetHasItem
| UserHasItem
| UnknownCond

text \<open>
  The declarative effects of a move, one constructor per \<open>case\<close> of \<open>applyEffect\<close>; optional
  fields are options, in the order the source reads them.
\<close>

datatype effect =
  EProtect
| EDamage (e_power: "rat option") (e_accuracy: "rat option")
| ESpeedBasedDamage "(rat option \<times> rat option) list" "rat option" "rat option"
| EApplyStatus string "string option" "dur option" "rat option" "bool option" "edata option"
| EOhko "rat option" "string option" "rat option" "bool option" "bool option"
        "string list option" "bool option"
| EApplyFieldStatus string "int option" "bool option" "edata option"
| ERemoveStatus string "string option"
| ERemoveFieldStatus string
| ELog string
| ECureAllStatus "string option"
| EReplaceStatus "string option" string string "int option" "edata option"
| EModifyStage "string option" "(string \<times> int) list option" "bool option" "bool option"
        "bool option"
| EClearStages "string option" "bool option"
| EResetStages "string option" "bool option"
| EDisableMove "string option" "int option" "string option"
| EChance "rat option" "effect list option" "effect list option"
| ERepeat "dur option" "dur option" "effect list option"
| EConditional "cond option" "effect list option" "effect list option"
| EDamageRatio "string option" "rat option"
| EDelay "string option" "int option" "string option" "effect list option"
| EOverTime "string option" "int option" "string option" "effect list option"
| ERandomMove "string option"
| EApplyItem "string option" "string option"
| ERemoveItem "string option"
| EConsumeItem "string option" "bool option"
| ESelfSwitch
| EForceSwitch "string option"
| EUnknown

text \<open>
  The \<open>data\<close> object of a status on a creature or of a field effect: the effect data plus
  what \<open>delay\<close> and \<open>over_time\<close> store. A missing object and \<open>{}\<close> are both \<open>no_data\<close>:
  the event applier stores \<open>data ?? {}\<close>, so every status the engine creates has the
  object, and the reads of the compiler are guarded by \<open>?.\<close>.
\<close>

record sdata = edata +
  triggerTurn :: "int option"
  seffects :: "effect list"
  d_targetId :: "string option"
  timing :: "string option"

definition no_data :: sdata where
  "no_data = \<lparr>itemId = None, d_moveId = None, mode = None, sourceId = None, turns = None,
     triggerTurn = None, seffects = [], d_targetId = None, timing = None\<rparr>"

record status =
  sid :: string
  remainingTurns :: "int option"
  sdata :: sdata

record vdata =
  protectSuccessCount :: "nat option"
  lastMove :: "string option"

definition no_vdata :: vdata where
  "no_vdata = \<lparr>protectSuccessCount = None, lastMove = None\<rparr>"

text \<open>
  \<open>CreatureState\<close> as \<open>createCreature\<close> builds it. \<open>abilityData\<close> holds flags that are only
  ever set to \<open>true\<close> (the list of the keys set) and the copied ability.
\<close>

record creature =
  cid :: string
  cname :: string
  speciesId :: string
  level :: int
  types :: "string list"
  moves :: "string list"
  ability :: string
  item :: "string option"
  hp :: int
  maxHp :: int
  status :: "string option"
  statuses :: "status list"
  stages :: "(string \<times> int) list"
  movePp :: "(string \<times> int option) list"
  attack :: int
  defense :: int
  spAttack :: int
  spDefense :: int
  speed :: int
  abilityData :: "string list"
  copiedAbility :: "string option"
  volatileData :: vdata

record player =
  pid :: string
  pname :: string
  team :: "creature list"
  activeSlot :: int
  lastFaintedAbility :: "string option"

datatype action_type = TMove | TSwitch | TUseItem | TWait

record action =
  a_type :: "action_type option"
  a_playerId :: string
  a_moveId :: "string option"
  a_targetId :: "string option"
  a_slot :: "int option"
  a_priority :: "int option"

record turn_record =
  t_turn :: int
  t_actions :: "action list"
  t_log :: "string list"
  t_rng :: "rat list"

text \<open>
  \<open>BattleState\<close>. \<open>field.global\<close> is the only part of the field the engine uses
  (\<open>field.sides\<close> is reserved), so the field is its \<open>global\<close> list.
\<close>

record state =
  players :: "player list"
  global :: "status list"
  turn :: int
  log_lines :: "string list"
  history :: "turn_record list option"

subsection \<open>Events (core/events.js)\<close>

record meta =
  m_source :: "string option"
  m_target :: "string option"
  m_moveId :: "string option"
  m_from :: "string option"
  m_cancellable :: bool
  m_bounced :: bool
  m_parentalBond :: bool
  m_ohko :: bool
  m_competitive :: bool
  m_opportunist :: bool

definition no_meta :: meta where
  "no_meta = \<lparr>m_source = None, m_target = None, m_moveId = None, m_from = None,
     m_cancellable = False, m_bounced = False, m_parentalBond = False, m_ohko = False,
     m_competitive = False, m_opportunist = False\<rparr>"

datatype event =
  Log string meta
| Switch string "int option"
| ApplyStatus string string "int option" bool sdata meta
| RemoveStatus string string meta
| CureAllStatus string meta
| ReplaceStatus string string string "int option" sdata meta
| ApplyFieldStatus string "int option" bool sdata meta
| RemoveFieldStatus string meta
| RandomMove string meta
| ModifyStage string "(string \<times> int) list" bool bool bool meta
| ClearStages string bool meta
| ResetStages string bool meta
| Damage string int meta
| SelfSwitch string
| ForceSwitch string

section \<open>Constructing states (core/state.js, the tests' makeCreature)\<close>

text \<open>\<open>createBattleState\<close>: each player is given as (id, name, team).\<close>

definition createBattleState :: "(string \<times> string \<times> creature list) list \<Rightarrow> state" where
  "createBattleState ps =
     \<lparr>players = map (\<lambda>(i, n, t). \<lparr>pid = i, pname = n, team = t, activeSlot = 0,
                                   lastFaintedAbility = None\<rparr>) ps,
      global = [], turn = 0, log_lines = [], history = None\<rparr>"

text \<open>
  The creature the DSL tests build (\<open>makeCreature\<close> of tests/dsl-tests.js): level 50, 100 hit
  points, every stat 50, speed 10, no ability.
\<close>

definition makeCreature :: "string \<Rightarrow> string list \<Rightarrow> creature" where
  "makeCreature n ms =
     \<lparr>cid = n, cname = n, speciesId = n, level = 50, types = [], moves = ms, ability = [],
      item = None, hp = 100, maxHp = 100, status = None, statuses = [],
      stages = [(''atk'', 0), (''def'', 0), (''spa'', 0), (''spd'', 0), (''spe'', 0)],
      movePp = [], attack = 50, defense = 50, spAttack = 50, spDefense = 50, speed = 10,
      abilityData = [], copiedAbility = None, volatileData = no_vdata\<rparr>"


section \<open>State access (core/utils.js)\<close>

definition findPlayer :: "state \<Rightarrow> string \<Rightarrow> player option" where
  "findPlayer st i = find (\<lambda>p. pid p = i) (players st)"

text \<open>\<open>team[i]\<close>: \<open>undefined\<close> outside the array.\<close>

definition teamAt :: "creature list \<Rightarrow> int \<Rightarrow> creature option" where
  "teamAt t i = (if 0 \<le> i \<and> i < int (length t) then Some (t ! nat i) else None)"

definition getActiveCreature :: "state \<Rightarrow> string \<Rightarrow> creature option" where
  "getActiveCreature st i =
     (case findPlayer st i of None \<Rightarrow> None | Some p \<Rightarrow> teamAt (team p) (activeSlot p))"

text \<open>
  The source mutates the objects it found inside the cloned state. \<open>updPlayer\<close> rewrites the
  first player with the given id (the one \<open>find\<close> returns), \<open>updActive\<close> the creature in
  that player's active slot.
\<close>

fun updFirst :: "('a \<Rightarrow> bool) \<Rightarrow> ('a \<Rightarrow> 'a) \<Rightarrow> 'a list \<Rightarrow> 'a list" where
  "updFirst P f [] = []"
| "updFirst P f (x # xs) = (if P x then f x # xs else x # updFirst P f xs)"

definition updPlayer :: "string \<Rightarrow> (player \<Rightarrow> player) \<Rightarrow> state \<Rightarrow> state" where
  "updPlayer i f st = st\<lparr>players := updFirst (\<lambda>p. pid p = i) f (players st)\<rparr>"

definition updTeamAt :: "int \<Rightarrow> (creature \<Rightarrow> creature) \<Rightarrow> creature list \<Rightarrow> creature list" where
  "updTeamAt i f t = (if 0 \<le> i \<and> i < int (length t) then t[nat i := f (t ! nat i)] else t)"

definition updActive :: "string \<Rightarrow> (creature \<Rightarrow> creature) \<Rightarrow> state \<Rightarrow> state" where
  "updActive i f st = updPlayer i (\<lambda>p. p\<lparr>team := updTeamAt (activeSlot p) f (team p)\<rparr>) st"

text \<open>\<open>Array.prototype.findIndex\<close>, \<open>None\<close> for \<open>-1\<close>.\<close>

fun findIndex :: "('a \<Rightarrow> bool) \<Rightarrow> 'a list \<Rightarrow> nat option" where
  "findIndex P [] = None"
| "findIndex P (x # xs) = (if P x then Some 0 else map_option Suc (findIndex P xs))"

definition pushLog :: "string \<Rightarrow> state \<Rightarrow> state" where
  "pushLog m st = st\<lparr>log_lines := log_lines st @ [m]\<rparr>"

definition hasStatus :: "string \<Rightarrow> creature \<Rightarrow> bool" where
  "hasStatus s c = list_ex (\<lambda>x. sid x = s) (statuses c)"

definition mkStatus :: "string \<Rightarrow> int option \<Rightarrow> sdata \<Rightarrow> status" where
  "mkStatus s d dat = \<lparr>sid = s, remainingTurns = d, sdata = dat\<rparr>"

definition zeroStages :: "(string \<times> int) list" where
  "zeroStages = [(''atk'', 0), (''def'', 0), (''spa'', 0), (''spd'', 0), (''spe'', 0),
     (''acc'', 0), (''eva'', 0)]"

definition NON_VOLATILE :: "string list" where
  "NON_VOLATILE = [''burn'', ''poison'', ''toxic'', ''paralysis'', ''sleep'', ''freeze'']"

definition stageOf :: "(string \<times> int) list \<Rightarrow> string \<Rightarrow> int" where
  "stageOf s k = (case map_of s k of None \<Rightarrow> 0 | Some v \<Rightarrow> v)"

definition formatStages :: "(string \<times> int) list \<Rightarrow> string" where
  "formatStages s = ''atk '' @ showInt (stageOf s ''atk'') @ '', def '' @ showInt (stageOf s ''def'')
     @ '', spa '' @ showInt (stageOf s ''spa'') @ '', spd '' @ showInt (stageOf s ''spd'')
     @ '', spe '' @ showInt (stageOf s ''spe'')"


section \<open>The creature factory (core/factory.js)\<close>

record baseStats =
  bs_hp :: int
  bs_atk :: int
  bs_def :: int
  bs_spa :: int
  bs_spd :: int
  bs_spe :: int

record species =
  sp_id :: string
  sp_name :: string
  sp_types :: "string list option"
  sp_type :: "string list option"
  sp_baseStats :: baseStats
  sp_abilities :: "string list option"

text \<open>
  The options of \<open>createCreature\<close>. The source reads \<open>moves\<close>, \<open>ability\<close>, \<open>name\<close>, \<open>level\<close> and
  \<open>item\<close>; callers of the engine's public surface may also pass \<open>evs\<close>, which the JavaScript
  factory never reads.
\<close>

record evs =
  ev_hp :: int
  ev_atk :: int
  ev_def :: int
  ev_spa :: int
  ev_spd :: int
  ev_spe :: int

record options =
  o_moves :: "string list option"
  o_ability :: "string option"
  o_name :: "string option"
  o_level :: "int option"
  o_item :: "string option"
  o_evs :: "evs option"

definition calcStat :: "int \<Rightarrow> bool \<Rightarrow> int \<Rightarrow> int \<Rightarrow> int" where
  "calcStat base isHp iv ev =
     (let lvl = 50
      in if isHp then ((base * 2 + iv + ev div 4) * lvl) div 100 + lvl + 10
         else ((base * 2 + iv + ev div 4) * lvl) div 100 + 5)"

fun joinComma :: "string list \<Rightarrow> string" where
  "joinComma [] = []"
| "joinComma [x] = x"
| "joinComma (x # y # ys) = x @ '', '' @ joinComma (y # ys)"

text \<open>
  \<open>validateMoves\<close>: \<open>ls\<close> is the learnset table, \<open>known\<close> tells whether the move table has the
  id. The three \<open>throw new Error\<close> are \<open>Error\<close> values with the source's messages.
\<close>

definition validateMoves ::
    "(string \<Rightarrow> string list option) \<Rightarrow> (string \<Rightarrow> bool) \<Rightarrow> string \<Rightarrow> string list
      \<Rightarrow> js_error + string list" where
  "validateMoves ls known sp requestedMoves =
     (if length requestedMoves = 0 then Inr []
      else case ls sp of
             None \<Rightarrow> Inl (Error (''No learnset found for species '' @ CHR 0x27 # sp @ CHR 0x27 # ''.''))
           | Some learnable \<Rightarrow>
               (let unknownMoves = filter (\<lambda>i. \<not> known i) requestedMoves
                in if length unknownMoves > 0
                   then Inl (Error (''Unknown move id(s) for species '' @ CHR 0x27 # sp @ CHR 0x27
                                    # '': '' @ joinComma unknownMoves))
                   else (let invalid = filter (\<lambda>i. i \<notin> set learnable) requestedMoves
                         in if length invalid > 0
                            then Inl (Error (''Move(s) not allowed for species '' @ CHR 0x27 # sp
                                             @ CHR 0x27 # '': '' @ joinComma invalid))
                            else Inr requestedMoves)))"

text \<open>
  \<open>createCreature\<close>. The instance id ends in five characters of \<open>Math.random()\<close>, here the
  argument \<open>suffix\<close>.
\<close>

definition createCreature ::
    "(string \<Rightarrow> string list option) \<Rightarrow> (string \<Rightarrow> bool) \<Rightarrow> string \<Rightarrow> species \<Rightarrow> options
      \<Rightarrow> js_error + creature" where
  "createCreature ls known suffix sp opts =
     (let lvl = (case o_level opts of None \<Rightarrow> 50 | Some l \<Rightarrow> l);
          iv = 31;
          ev = 0;
          tys = (case sp_types sp of Some t \<Rightarrow> t
                 | None \<Rightarrow> (case sp_type sp of Some t \<Rightarrow> t | None \<Rightarrow> []));
          b = sp_baseStats sp;
          s_hp = calcStat (bs_hp b) True iv ev;
          s_atk = calcStat (bs_atk b) False iv ev;
          s_def = calcStat (bs_def b) False iv ev;
          s_spa = calcStat (bs_spa b) False iv ev;
          s_spd = calcStat (bs_spd b) False iv ev;
          s_spe = calcStat (bs_spe b) False iv ev
      in case validateMoves ls known (sp_id sp) (case o_moves opts of None \<Rightarrow> [] | Some ms \<Rightarrow> ms) of
           Inl e \<Rightarrow> Inl e
         | Inr ms \<Rightarrow>
             Inr \<lparr>cid = sp_id sp @ ''_'' @ suffix,
                  cname = (case o_name opts of None \<Rightarrow> sp_name sp | Some n \<Rightarrow> n),
                  speciesId = sp_id sp,
                  level = lvl,
                  types = tys,
                  moves = ms,
                  ability = (case o_ability opts of
                               Some a \<Rightarrow> a
                             | None \<Rightarrow> (case sp_abilities sp of
                                          Some (a # as) \<Rightarrow> a
                                        | _ \<Rightarrow> ''none'')),
                  item = o_item opts,
                  hp = s_hp, maxHp = s_hp, status = None, statuses = [],
                  stages = zeroStages, movePp = [],
                  attack = s_atk, defense = s_def, spAttack = s_spa, spDefense = s_spd,
                  speed = s_spe,
                  abilityData = [], copiedAbility = None, volatileData = no_vdata\<rparr>)"

section \<open>Moves, the compiler's context and the random source\<close>

text \<open>
  A move definition of \<open>data/moves\<close>. The table of moves itself is data that the engine
  loads; every function that reads it takes it as the association list \<open>mvs\<close>, in the key
  order of the object.
\<close>

record move =
  mv_id :: string
  mv_name :: string
  mv_type :: "string option"
  category :: "string option"
  mv_priority :: "int option"
  critRate :: "int option"
  pp :: "int option"
  tags :: "string list"
  effects :: "effect list"

record ctx =
  c_attacker :: "creature option"
  c_target :: "creature option"
  c_move :: "move option"
  attackerPlayerId :: string
  targetPlayerId :: string
  c_turn :: "int option"

text \<open>
  The random source is a JavaScript function that returns the next number at each call.
  It is modelled by the sequence of the numbers it will return (\<open>future\<close>, number \<open>0\<close> being
  the next one); \<open>drawn\<close> is the resolver's \<open>rngLog\<close>, to which the recording wrapper
  \<open>rngRecorder\<close> appends every number it hands out. The compiler is always called with the
  recorder.
\<close>

record rngst =
  future :: "nat \<Rightarrow> rat"
  drawn :: "rat list"

definition rngRecorder :: "rngst \<Rightarrow> rat \<times> rngst" where
  "rngRecorder r = (future r 0, \<lparr>future = (\<lambda>n. future r (Suc n)), drawn = drawn r @ [future r 0]\<rparr>)"

text \<open>The source after \<open>k\<close> calls of the recorder.\<close>

definition advance :: "nat \<Rightarrow> rngst \<Rightarrow> rngst" where
  "advance k r = \<lparr>future = (\<lambda>n. future r (n + k)), drawn = drawn r @ map (future r) [0..<k]\<rparr>"

text \<open>The source of the tests (\<open>makeRng\<close>): the listed numbers, then a fixed one for ever.\<close>

definition makeRng :: "rat list \<Rightarrow> rat \<Rightarrow> nat \<Rightarrow> rat" where
  "makeRng xs d n = (if n < length xs then xs ! n else d)"

section \<open>The type chart (data/type_chart.js)\<close>

definition lowerChar :: "char \<Rightarrow> char" where
  "lowerChar c = (case map_of (zip ''ABCDEFGHIJKLMNOPQRSTUVWXYZ'' ''abcdefghijklmnopqrstuvwxyz'') c of
                    None \<Rightarrow> c | Some d \<Rightarrow> d)"

definition toLowerCase :: "string \<Rightarrow> string" where
  "toLowerCase s = map lowerChar s"

text \<open>\<open>typeChart\<close> after \<open>normalizeList\<close>: for each type, what it resists and is weak to.\<close>

definition typeChart :: "(string \<times> string list \<times> string list) list" where
  "typeChart =
    [(''normal'', [], [''fighting'']),
     (''fire'', [''grass'', ''ice'', ''bug'', ''steel'', ''fairy''], [''water'', ''ground'', ''rock'']),
     (''water'', [''steel'', ''fire'', ''water''], [''electric'', ''grass'']),
     (''electric'', [''flying'', ''steel'', ''electric''], [''ground'']),
     (''grass'', [''ground'', ''water'', ''grass''],
        [''fire'', ''ice'', ''poison'', ''flying'', ''bug'']),
     (''ice'', [''ice''], [''fire'', ''fighting'', ''rock'', ''steel'']),
     (''fighting'', [''rock'', ''bug'', ''dark''], [''flying'', ''psychic'', ''fairy'']),
     (''poison'', [''grass'', ''fighting'', ''poison'', ''bug''], [''ground'', ''psychic'']),
     (''ground'', [''poison'', ''rock''], [''water'', ''grass'', ''ice'']),
     (''flying'', [''fighting'', ''bug'', ''grass''], [''electric'', ''ice'', ''rock'']),
     (''psychic'', [''fighting'', ''psychic''], [''bug'', ''ghost'', ''dark'']),
     (''bug'', [''grass'', ''fighting'', ''ground''], [''fire'', ''flying'', ''rock'']),
     (''rock'', [''normal'', ''flying'', ''poison'', ''fire''],
        [''water'', ''grass'', ''fighting'', ''ground'', ''steel'']),
     (''ghost'', [''poison'', ''bug''], [''ghost'', ''dark'']),
     (''dragon'', [''grass'', ''fire'', ''water'', ''electric''], [''ice'', ''dragon'', ''fairy'']),
     (''dark'', [''ghost'', ''dark''], [''fighting'', ''bug'', ''fairy'']),
     (''steel'', [''normal'', ''flying'', ''rock'', ''bug'', ''steel'', ''grass'', ''psychic'',
                  ''ice'', ''dragon'', ''fairy''], [''fire'', ''water'', ''ground'']),
     (''fairy'', [''fighting'', ''bug'', ''dark''], [''poison'', ''steel''])]"

definition typeImmunities :: "(string \<times> string list) list" where
  "typeImmunities =
    [(''normal'', [''ghost'']), (''ghost'', [''normal'', ''fighting'']), (''steel'', [''poison'']),
     (''flying'', [''ground'']), (''dark'', [''psychic'']), (''ground'', [''electric'']),
     (''fairy'', [''dragon''])]"

text \<open>The loop of \<open>getTypeEffectiveness\<close> over the target's types; an immunity returns 0 at once.\<close>

fun typeLoop :: "string \<Rightarrow> string list \<Rightarrow> rat \<Rightarrow> rat" where
  "typeLoop moveKey [] multiplier = multiplier"
| "typeLoop moveKey (targetType # rest) multiplier =
     (if (case map_of typeImmunities targetType of None \<Rightarrow> False | Some imm \<Rightarrow> moveKey \<in> set imm)
      then 0
      else case map_of typeChart targetType of
             None \<Rightarrow> typeLoop moveKey rest multiplier
           | Some (resists, weakTo) \<Rightarrow>
               typeLoop moveKey rest
                 ((if moveKey \<in> set resists then 1 / 2 else 1)
                  * ((if moveKey \<in> set weakTo then 2 else 1) * multiplier)))"

definition getTypeEffectiveness :: "string option \<Rightarrow> string list \<Rightarrow> rat" where
  "getTypeEffectiveness moveType targetTypes =
     (case moveType of
        None \<Rightarrow> 1
      | Some t \<Rightarrow> if t = [] then 1 else typeLoop (toLowerCase t) (map toLowerCase targetTypes) 1)"

section \<open>Move helpers (core/utils.js, effects/index.js)\<close>

definition stageMultiplier :: "int \<Rightarrow> rat" where
  "stageMultiplier stage =
     (let s = max (- 6) (min 6 stage)
      in if s \<ge> 0 then (2 + of_int s) / 2 else 2 / (2 - of_int s))"

definition isDamageEffect :: "effect \<Rightarrow> bool" where
  "isDamageEffect e = (case e of EDamage p a \<Rightarrow> True | _ \<Rightarrow> False)"

definition getMoveCategory :: "move option \<Rightarrow> string" where
  "getMoveCategory m =
     (case (case m of None \<Rightarrow> None | Some mv \<Rightarrow> category mv) of
        Some c \<Rightarrow> if c \<noteq> [] then c
                  else if list_ex isDamageEffect (case m of None \<Rightarrow> [] | Some mv \<Rightarrow> effects mv)
                  then ''physical'' else ''status''
      | None \<Rightarrow> if list_ex isDamageEffect (case m of None \<Rightarrow> [] | Some mv \<Rightarrow> effects mv)
                then ''physical'' else ''status'')"

definition isStatusMove :: "move option \<Rightarrow> bool" where
  "isStatusMove m =
     (case (case m of None \<Rightarrow> None | Some mv \<Rightarrow> category mv) of
        Some c \<Rightarrow> if c \<noteq> [] then c = ''status''
                  else \<not> list_ex isDamageEffect (case m of None \<Rightarrow> [] | Some mv \<Rightarrow> effects mv)
      | None \<Rightarrow> \<not> list_ex isDamageEffect (case m of None \<Rightarrow> [] | Some mv \<Rightarrow> effects mv))"

definition moveId :: "ctx \<Rightarrow> string option" where
  "moveId c = map_option mv_id (c_move c)"

definition moveType :: "ctx \<Rightarrow> string option" where
  "moveType c = (case c_move c of None \<Rightarrow> None | Some m \<Rightarrow> mv_type m)"

definition resolveTarget :: "string option \<Rightarrow> ctx \<Rightarrow> string" where
  "resolveTarget tgt c = (if tgt = Some ''self'' then attackerPlayerId c else targetPlayerId c)"

text \<open>The \<open>meta\<close> record \<open>{moveId, source}\<close> that most compiled events carry.\<close>

definition srcMeta :: "ctx \<Rightarrow> meta" where
  "srcMeta c = no_meta\<lparr>m_moveId := moveId c, m_source := Some (attackerPlayerId c)\<rparr>"

definition getWeather :: "state \<Rightarrow> string option" where
  "getWeather st = map_option sid (find (\<lambda>e. sid e = ''sun'' \<or> sid e = ''rain'') (global st))"

definition setWeather :: "state \<Rightarrow> string \<Rightarrow> int option \<Rightarrow> state" where
  "setWeather st i n =
     st\<lparr>global := filter (\<lambda>e. sid e \<noteq> ''sun'' \<and> sid e \<noteq> ''rain'') (global st)
                    @ [mkStatus i n no_data]\<rparr>"

section \<open>The ability registry (abilities/index.js)\<close>

text \<open>
  \<open>runAbilityValueHook\<close> and \<open>runAbilityCheckHook\<close> look the player up, take its active
  creature and dispatch on the ability id; they return the initial (default) value when
  the player, the creature, the ability or the handler is missing. The registry is given
  hook by hook: for each hook name a function from the ability id to its handler, \<open>None\<close>
  where the ability has none. A handler receives the player, its active creature
  (\<open>player.active\<close>) and, for a value hook, the value; the rest of the handler's context is
  an argument of the registry function.
\<close>

definition activeAbility :: "state \<Rightarrow> string \<Rightarrow> (player \<times> creature) option" where
  "activeAbility st i =
     (case findPlayer st i of
        None \<Rightarrow> None
      | Some p \<Rightarrow>
          (case teamAt (team p) (activeSlot p) of
             None \<Rightarrow> None
           | Some c \<Rightarrow> if ability c = [] then None else Some (p, c)))"

definition runAbilityValueHook ::
    "state \<Rightarrow> string \<Rightarrow> (string \<Rightarrow> (player \<Rightarrow> creature \<Rightarrow> 'a \<Rightarrow> 'a) option) \<Rightarrow> 'a \<Rightarrow> 'a" where
  "runAbilityValueHook st playerId hook initialValue =
     (case activeAbility st playerId of
        None \<Rightarrow> initialValue
      | Some (p, active) \<Rightarrow>
          (case hook (ability active) of None \<Rightarrow> initialValue | Some h \<Rightarrow> h p active initialValue))"

definition runAbilityCheckHook ::
    "state \<Rightarrow> string \<Rightarrow> (string \<Rightarrow> (player \<Rightarrow> creature \<Rightarrow> bool) option) \<Rightarrow> bool \<Rightarrow> bool" where
  "runAbilityCheckHook st playerId hook defaultValue =
     (case activeAbility st playerId of
        None \<Rightarrow> defaultValue
      | Some (p, active) \<Rightarrow>
          (case hook (ability active) of None \<Rightarrow> defaultValue | Some h \<Rightarrow> h p active))"

definition onCheckStatusImmunity :: "string \<Rightarrow> string \<Rightarrow> (player \<Rightarrow> creature \<Rightarrow> bool) option" where
  "onCheckStatusImmunity statusId ab =
     (if ab = ''immunity'' then Some (\<lambda>p a. statusId = ''poison'' \<or> statusId = ''toxic'')
      else if ab = ''insomnia'' then Some (\<lambda>p a. statusId = ''sleep'')
      else if ab = ''own_tempo'' then Some (\<lambda>p a. statusId = ''confusion'')
      else None)"

definition onImmunity :: "string \<Rightarrow> string \<Rightarrow> (player \<Rightarrow> creature \<Rightarrow> bool) option" where
  "onImmunity ty ab =
     (if ab = ''own_tempo'' \<or> ab = ''clear_body'' \<or> ab = ''white_smoke'' \<or> ab = ''hyper_cutter''
      then Some (\<lambda>p a. ty = ''intimidate'')
      else None)"

definition onModifyStage ::
    "string \<Rightarrow> (player \<Rightarrow> creature \<Rightarrow> (string \<times> int) list \<Rightarrow> (string \<times> int) list) option" where
  "onModifyStage ab =
     (if ab = ''contrary'' then Some (\<lambda>p a stg. map (\<lambda>(k, v). (k, - v)) stg)
      else if ab = ''simple'' then Some (\<lambda>p a stg. map (\<lambda>(k, v). (k, v * 2)) stg)
      else None)"

definition moveHasTag :: "move option \<Rightarrow> string \<Rightarrow> bool" where
  "moveHasTag m t = (case m of None \<Rightarrow> False | Some mv \<Rightarrow> t \<in> set (tags mv))"

definition moveTypeIs :: "move option \<Rightarrow> string \<Rightarrow> bool" where
  "moveTypeIs m t = (case m of None \<Rightarrow> False | Some mv \<Rightarrow> mv_type mv = Some t)"

definition onModifyPower ::
    "move option \<Rightarrow> string \<Rightarrow> string \<Rightarrow> (player \<Rightarrow> creature \<Rightarrow> rat \<Rightarrow> rat) option" where
  "onModifyPower mv cat ab =
     (if ab = ''sharpness'' then Some (\<lambda>p a v. if moveHasTag mv ''slicing'' then v * (3 / 2) else v)
      else if ab = ''technician'' then Some (\<lambda>p a v. if v \<le> 60 then v * (3 / 2) else v)
      else if ab = ''steelworker'' then Some (\<lambda>p a v. if moveTypeIs mv ''steel'' then v * (3 / 2) else v)
      else if ab = ''hustle'' then Some (\<lambda>p a v. if cat = ''physical'' then v * (3 / 2) else v)
      else if ab = ''pure_power'' then Some (\<lambda>p a v. if cat = ''physical'' then v * 2 else v)
      else if ab = ''guts''
      then Some (\<lambda>p a v. if cat = ''physical'' \<and> length (statuses a) > 0 then v * (3 / 2) else v)
      else None)"

definition onDefensivePower ::
    "move option \<Rightarrow> string \<Rightarrow> (player \<Rightarrow> creature \<Rightarrow> rat \<Rightarrow> rat) option" where
  "onDefensivePower mv ab =
     (if ab = ''thick_fat''
      then Some (\<lambda>p a v. if moveTypeIs mv ''fire'' \<or> moveTypeIs mv ''ice'' then v * (1 / 2) else v)
      else None)"

definition onModifyOffense ::
    "string \<Rightarrow> int \<Rightarrow> string \<Rightarrow> (player \<Rightarrow> creature \<Rightarrow> rat \<Rightarrow> rat) option" where
  "onModifyOffense cat trn ab =
     (if ab = ''unaware'' then Some (\<lambda>p a v. v)
      else if ab = ''slow_start''
      then Some (\<lambda>p a v. if trn \<le> 5 \<and> cat = ''physical'' then v * (1 / 2) else v)
      else None)"

definition onModifyDefense ::
    "string \<Rightarrow> string \<Rightarrow> (player \<Rightarrow> creature \<Rightarrow> rat \<Rightarrow> rat) option" where
  "onModifyDefense cat ab =
     (if ab = ''fur_coat'' then Some (\<lambda>p a v. if cat = ''physical'' then v * 2 else v)
      else None)"

definition onModifyCritChance ::
    "creature \<Rightarrow> string \<Rightarrow> (player \<Rightarrow> creature \<Rightarrow> int \<Rightarrow> int) option" where
  "onModifyCritChance tgt ab =
     (if ab = ''merciless''
      then Some (\<lambda>p a v. if list_ex (\<lambda>s. sid s = ''poison'' \<or> sid s = ''toxic'') (statuses tgt)
                          then 999 else v)
      else if ab = ''super_luck'' then Some (\<lambda>p a v. v + 1)
      else None)"

definition onModifyAccuracy ::
    "string \<Rightarrow> string \<Rightarrow> (player \<Rightarrow> creature \<Rightarrow> rat \<Rightarrow> rat) option" where
  "onModifyAccuracy cat ab =
     (if ab = ''hustle'' then Some (\<lambda>p a v. if cat = ''physical'' then v * (4 / 5) else v)
      else if ab = ''compound_eyes'' then Some (\<lambda>p a v. v * (13 / 10))
      else None)"

definition onModifySpeed ::
    "string option \<Rightarrow> int \<Rightarrow> string \<Rightarrow> (player \<Rightarrow> creature \<Rightarrow> rat \<Rightarrow> rat) option" where
  "onModifySpeed weather trn ab =
     (if ab = ''slow_start'' then Some (\<lambda>p a v. if trn \<le> 5 then v * (1 / 2) else v)
      else if ab = ''quick_feet''
      then Some (\<lambda>p a v. if length (statuses a) > 0 then v * (3 / 2) else v)
      else if ab = ''swift_swim'' then Some (\<lambda>p a v. if weather = Some ''rain'' then v * 2 else v)
      else if ab = ''chlorophyll'' then Some (\<lambda>p a v. if weather = Some ''sun'' then v * 2 else v)
      else None)"

definition onModifyPriority ::
    "move option \<Rightarrow> string \<Rightarrow> (player \<Rightarrow> creature \<Rightarrow> int \<Rightarrow> int) option" where
  "onModifyPriority mv ab =
     (if ab = ''prankster'' then Some (\<lambda>p a v. if isStatusMove mv then v + 1 else v)
      else None)"

definition onSkillLink :: "string \<Rightarrow> (player \<Rightarrow> creature \<Rightarrow> bool) option" where
  "onSkillLink ab = (if ab = ''skill_link'' then Some (\<lambda>p a. True) else None)"

definition onCheckItem :: "string \<Rightarrow> (player \<Rightarrow> creature \<Rightarrow> bool) option" where
  "onCheckItem ab = (if ab = ''klutz'' \<or> ab = ''unnerve'' then Some (\<lambda>p a. False) else None)"

definition onTrap :: "state \<Rightarrow> string \<Rightarrow> string \<Rightarrow> (player \<Rightarrow> creature \<Rightarrow> bool) option" where
  "onTrap st targetId ab =
     (if ab = ''shadow_tag''
      then Some (\<lambda>p a. if targetId = [] \<or> targetId = pid p then False
                        else if map_option ability (getActiveCreature st targetId) = Some ''shadow_tag''
                        then False else True)
      else None)"


section \<open>The damage formula (effects/index.js)\<close>

definition turnOf :: "ctx \<Rightarrow> state \<Rightarrow> int" where
  "turnOf c st = (case c_turn c of Some t \<Rightarrow> t | None \<Rightarrow> turn st)"

definition modifyMovePower :: "rat \<Rightarrow> state \<Rightarrow> ctx \<Rightarrow> rat" where
  "modifyMovePower basePower st c =
     (let pwr = runAbilityValueHook st (attackerPlayerId c)
                  (onModifyPower (c_move c) (getMoveCategory (c_move c))) basePower
      in if targetPlayerId c \<noteq> []
         then runAbilityValueHook st (targetPlayerId c) (onDefensivePower (c_move c)) pwr
         else pwr)"

definition resolveOffenseDefense ::
    "state \<Rightarrow> creature \<Rightarrow> creature \<Rightarrow> string \<Rightarrow> ctx \<Rightarrow> bool \<Rightarrow> rat \<times> rat" where
  "resolveOffenseDefense st atkr tgt cat c isCritical =
     (let special = (cat = ''special'');
          atkStage = stageOf (stages atkr) (if special then ''spa'' else ''atk'');
          defStage = stageOf (stages tgt) (if special then ''spd'' else ''def'');
          defStage = (if ability atkr = ''unaware'' then 0 else defStage);
          atkStage = (if ability tgt = ''unaware'' then 0 else atkStage);
          atkStage = (if isCritical then max 0 atkStage else atkStage);
          defStage = (if isCritical then min 0 defStage else defStage);
          atk = of_int (if special then spAttack atkr else attack atkr) * stageMultiplier atkStage;
          def = max 1 (of_int (if special then spDefense tgt else defense tgt)
                        * stageMultiplier defStage);
          atk = runAbilityValueHook st (attackerPlayerId c) (onModifyOffense cat (turnOf c st)) atk;
          def = runAbilityValueHook st (targetPlayerId c) (onModifyDefense cat) def
      in (atk, def))"

text \<open>
  \<open>rollCritical\<close>. The flag \<open>parentalBondHit\<close> of the context is the argument \<open>pb\<close>. No
  number is drawn when the crit stage is not positive.
\<close>

definition critStageOf :: "state \<Rightarrow> creature \<Rightarrow> ctx \<Rightarrow> int" where
  "critStageOf st tgt c =
     runAbilityValueHook st (attackerPlayerId c) (onModifyCritChance tgt)
       (case (case c_move c of None \<Rightarrow> None | Some m \<Rightarrow> critRate m) of
          None \<Rightarrow> 0 | Some r \<Rightarrow> 0 + r)"

definition rollCritical :: "state \<Rightarrow> creature \<Rightarrow> creature \<Rightarrow> ctx \<Rightarrow> bool \<Rightarrow> rngst \<Rightarrow> bool \<times> rngst" where
  "rollCritical st atkr tgt c pb rs =
     (if pb then (False, rs)
      else let critStage = critStageOf st tgt c
           in if critStage \<le> 0 then (False, rs)
              else let chance = (if critStage = 1 then 1 / 8 else if critStage = 2 then 1 / 2 else (1::rat));
                       (roll, rs') = rngRecorder rs
                   in (if chance \<ge> 1 then True else roll < chance, rs'))"

definition calcDamage ::
    "rat option \<Rightarrow> creature option \<Rightarrow> creature option \<Rightarrow> state \<Rightarrow> ctx \<Rightarrow> bool \<Rightarrow> rngst
      \<Rightarrow> int \<times> rngst" where
  "calcDamage pwr atkr0 tgt0 st c pb rs =
     (case atkr0 of
        None \<Rightarrow> (0, rs)
      | Some atkr \<Rightarrow>
     (case tgt0 of
        None \<Rightarrow> (0, rs)
      | Some tgt \<Rightarrow>
          (let cat = getMoveCategory (c_move c);
               movePower = modifyMovePower (case pwr of None \<Rightarrow> 0 | Some w \<Rightarrow> w) st c;
               lvl = level atkr;
               (crit, rs1) = rollCritical st atkr tgt c pb rs;
               stab = (if (case moveType c of None \<Rightarrow> False | Some ty \<Rightarrow> ty \<in> set (types atkr))
                       then 3 / 2 else (1::rat));
               typeEffectiveness = getTypeEffectiveness (moveType c) (types tgt)
           in if typeEffectiveness = 0 then (0, rs1)
              else let (atk, def) = resolveOffenseDefense st atkr tgt cat c crit;
                       base = ((of_int lvl * 2 / 5 + 2) * movePower * atk) / def / 50 + 2;
                       (r, rs2) = rngRecorder rs1;
                       roll = 85 / 100 + (1 - 85 / 100) * r;
                       raw = base * roll * (if crit then 3 / 2 else 1) * stab * typeEffectiveness
                   in (max 1 \<lfloor>raw\<rfloor>, rs2))))"

definition computeSpeed :: "state \<Rightarrow> string \<Rightarrow> int \<Rightarrow> rat" where
  "computeSpeed st playerId trn =
     (case getActiveCreature st playerId of
        None \<Rightarrow> 0
      | Some c \<Rightarrow>
          runAbilityValueHook st playerId (onModifySpeed (getWeather st) trn)
            (of_int (speed c) * stageMultiplier (stageOf (stages c) ''spe'')))"

section \<open>Held items (effects/index.js)\<close>

definition isItemStatus :: "string \<Rightarrow> bool" where
  "isItemStatus s = (s = ''item'' \<or> s = ''berry'')"

definition hasItem :: "creature option \<Rightarrow> bool" where
  "hasItem c0 =
     (case c0 of
        None \<Rightarrow> False
      | Some c \<Rightarrow> (case item c of Some i \<Rightarrow> i \<noteq> [] | None \<Rightarrow> False)
                  \<or> list_ex (\<lambda>s. isItemStatus (sid s)) (statuses c))"

definition getItemId :: "creature \<Rightarrow> string option" where
  "getItemId c =
     (if (case item c of Some i \<Rightarrow> i \<noteq> [] | None \<Rightarrow> False) then item c
      else case find (\<lambda>s. isItemStatus (sid s)) (statuses c) of
             None \<Rightarrow> None
           | Some s \<Rightarrow> (case itemId (sdata s) of Some i \<Rightarrow> Some i | None \<Rightarrow> Some (sid s)))"

definition setItemStatus :: "string \<Rightarrow> creature \<Rightarrow> creature" where
  "setItemStatus i c =
     (let statusObj = mkStatus ''item'' None (no_data\<lparr>itemId := Some i\<rparr>)
      in case findIndex (\<lambda>s. isItemStatus (sid s)) (statuses c) of
           Some existingIndex \<Rightarrow> c\<lparr>item := Some i, statuses := (statuses c)[existingIndex := statusObj]\<rparr>
         | None \<Rightarrow> c\<lparr>item := Some i, statuses := statuses c @ [statusObj]\<rparr>)"

definition clearItemStatus :: "creature \<Rightarrow> creature" where
  "clearItemStatus c =
     c\<lparr>item := None, statuses := filter (\<lambda>s. \<not> isItemStatus (sid s)) (statuses c)\<rparr>"


section \<open>The effect compiler (effects/index.js)\<close>

text \<open>
  \<open>applyEffect\<close> returns the events of one effect. It draws from the random source and, in
  a few cases, writes into the state it was given (the protect counter, held items, the
  \<open>berry_consumed\<close> status); so the model returns the events, the state and the random
  source after the call. A template string that reads \<open>ctx.attacker.name\<close> or
  \<open>ctx.move.name\<close> without \<open>?.\<close> raises a TypeError when the context has no attacker or
  move. Each \<open>case\<close> of the source's \<open>switch\<close> is one definition.
\<close>

type_synonym compiled = "js_error + (event list \<times> state \<times> rngst)"

definition eff_protect :: "state \<Rightarrow> ctx \<Rightarrow> rngst \<Rightarrow> compiled" where
  "eff_protect st c rs =
     (case getActiveCreature st (attackerPlayerId c) of
        None \<Rightarrow> Inr ([], st, rs)
      | Some attackerCreature \<Rightarrow>
          (let successCount = (case protectSuccessCount (volatileData attackerCreature) of
                                 None \<Rightarrow> 0 | Some n \<Rightarrow> n);
               chance = (1 / 2) ^ successCount;
               (roll, rs1) = rngRecorder rs;
               setCount = (\<lambda>n. updActive (attackerPlayerId c)
                  (\<lambda>x. x\<lparr>volatileData := (volatileData x)\<lparr>protectSuccessCount := Some n\<rparr>\<rparr>) st)
           in if roll > chance
              then (case c_attacker c of
                      None \<Rightarrow> Inl TypeError
                    | Some a \<Rightarrow>
                        Inr ([Log (cname a @ CHR 0x27 # ''s protect failed!'') no_meta],
                             setCount 0, rs1))
              else Inr ([ApplyStatus (attackerPlayerId c) ''protect'' (Some 1) False no_data
                           (srcMeta c)],
                        setCount (successCount + 1), rs1)))"

definition eff_damage :: "rat option \<Rightarrow> rat option \<Rightarrow> state \<Rightarrow> ctx \<Rightarrow> rngst \<Rightarrow> compiled" where
  "eff_damage pwr acc st c rs =
     (let attackerCreature = getActiveCreature st (attackerPlayerId c);
          targetCreature = getActiveCreature st (targetPlayerId c);
          cat = getMoveCategory (c_move c);
          accuracy = runAbilityValueHook st (attackerPlayerId c) (onModifyAccuracy cat)
                       (case acc of None \<Rightarrow> 1 | Some a \<Rightarrow> a);
          (roll, rs1) = rngRecorder rs
      in if roll > accuracy
         then (case c_attacker c of
                 None \<Rightarrow> Inl TypeError
               | Some a \<Rightarrow>
                   (case c_move c of
                      None \<Rightarrow> Inl TypeError
                    | Some m \<Rightarrow>
                        Inr ([Log (cname a @ CHR 0x27 # ''s '' @ mv_name m @ '' missed!'') (srcMeta c)],
                             st, rs1)))
         else let (amount, rs2) = calcDamage pwr attackerCreature targetCreature st c False rs1;
                  attackerName = (case c_attacker c of None \<Rightarrow> ''Unknown'' | Some a \<Rightarrow> cname a);
                  moveName = (case c_move c of None \<Rightarrow> ''move'' | Some m \<Rightarrow> mv_name m);
                  dmeta = (srcMeta c)\<lparr>m_target := Some (targetPlayerId c), m_cancellable := True\<rparr>;
                  evs = [Log (attackerName @ '' used '' @ moveName @ ''!'') (srcMeta c),
                         Damage (targetPlayerId c) amount dmeta]
              in if map_option ability attackerCreature = Some ''parental_bond''
                 then let secondPower = (case pwr of None \<Rightarrow> 0 | Some w \<Rightarrow> w) * (1 / 4);
                          (secondAmount, rs3) =
                             calcDamage (Some secondPower) attackerCreature targetCreature st c True rs2
                      in Inr (evs @ [Damage (targetPlayerId c) secondAmount
                                       (dmeta\<lparr>m_parentalBond := True\<rparr>)], st, rs3)
                 else Inr (evs, st, rs2))"

definition thRatio :: "rat option \<times> rat option \<Rightarrow> rat" where
  "thRatio t = (case fst t of None \<Rightarrow> 0 | Some r \<Rightarrow> r)"

definition eff_speed_based_damage ::
    "(rat option \<times> rat option) list \<Rightarrow> rat option \<Rightarrow> rat option \<Rightarrow> state \<Rightarrow> ctx \<Rightarrow> rngst
      \<Rightarrow> compiled" where
  "eff_speed_based_damage ths basePower acc st c rs =
     (let attackerSpeed = computeSpeed st (attackerPlayerId c) (turnOf c st);
          targetSpeed = computeSpeed st (targetPlayerId c) (turnOf c st);
          infinite = (targetSpeed \<le> 0);
          ratio = attackerSpeed / targetSpeed;
          thresholds = sort_key (\<lambda>t. - thRatio t) ths;
          chosen0 = (case basePower of
                       Some b \<Rightarrow> b
                     | None \<Rightarrow> if length thresholds > 0
                               then (case snd (last thresholds) of None \<Rightarrow> 0 | Some w \<Rightarrow> w)
                               else 0);
          chosenPower = (case find (\<lambda>t. infinite \<or> ratio \<ge> thRatio t) thresholds of
                           None \<Rightarrow> chosen0
                         | Some t \<Rightarrow> (case snd t of None \<Rightarrow> chosen0 | Some w \<Rightarrow> w))
      in eff_damage (Some chosenPower) (Some (case acc of None \<Rightarrow> 1 | Some a \<Rightarrow> a)) st c rs)"

definition giverName :: "ctx \<Rightarrow> string \<Rightarrow> string" where
  "giverName c dflt = (case c_attacker c of None \<Rightarrow> dflt | Some a \<Rightarrow> cname a)"

definition toSdata :: "edata option \<Rightarrow> sdata" where
  "toSdata d = (case d of None \<Rightarrow> no_data
     | Some e \<Rightarrow> no_data\<lparr>itemId := itemId e, d_moveId := d_moveId e, mode := mode e,
                          sourceId := sourceId e, turns := turns e\<rparr>)"

definition eff_apply_status ::
    "string \<Rightarrow> string option \<Rightarrow> dur option \<Rightarrow> rat option \<Rightarrow> bool option \<Rightarrow> edata option
      \<Rightarrow> state \<Rightarrow> ctx \<Rightarrow> rngst \<Rightarrow> compiled" where
  "eff_apply_status statusId tgt dr ch stk dat st c rs =
     (if isItemStatus statusId
      then (let targetId = resolveTarget tgt c
            in case getActiveCreature st targetId of
                 None \<Rightarrow> Inr ([], st, rs)
               | Some tc \<Rightarrow>
                   (let iid = (case (case dat of None \<Rightarrow> None | Some d \<Rightarrow> itemId d) of
                                 Some i \<Rightarrow> i | None \<Rightarrow> statusId)
                    in Inr ([Log (giverName c ''Someone'' @ '' gave '' @ iid @ '' to '' @ cname tc
                                  @ ''.'') (srcMeta c)],
                            updActive targetId (setItemStatus iid) st, rs)))
      else (let (passes, rs1) = (case ch of
                                   None \<Rightarrow> (True, rs)
                                 | Some p \<Rightarrow> (let (roll, r1) = rngRecorder rs in (roll \<le> p, r1)))
            in if \<not> passes
               then (case c_attacker c of
                       None \<Rightarrow> Inl TypeError
                     | Some a \<Rightarrow>
                         Inr ([Log (cname a @ CHR 0x27 # ''s '' @ statusId @ '' failed to apply.'')
                                 (srcMeta c)], st, rs1))
               else (let targetId = resolveTarget tgt c;
                         (duration, rs2) =
                            (case dr of
                               None \<Rightarrow> (None, rs1)
                             | Some (DNum n) \<Rightarrow> (Some n, rs1)
                             | Some (DRange mn mx) \<Rightarrow>
                                 (let (r, r2) = rngRecorder rs1
                                  in (Some (mn + \<lfloor>r * of_int (mx - mn + 1)\<rfloor>), r2)));
                         d0 = toSdata dat;
                         d1 = (if sourceId d0 = Some ''self''
                               then d0\<lparr>sourceId := Some (attackerPlayerId c)\<rparr> else d0)
                     in Inr ([ApplyStatus targetId statusId duration
                                (case stk of None \<Rightarrow> False | Some b \<Rightarrow> b) d1 (srcMeta c)],
                             st, rs2))))"

definition eff_ohko ::
    "rat option \<Rightarrow> string option \<Rightarrow> rat option \<Rightarrow> bool option \<Rightarrow> bool option
      \<Rightarrow> string list option \<Rightarrow> bool option \<Rightarrow> state \<Rightarrow> ctx \<Rightarrow> rngst \<Rightarrow> compiled" where
  "eff_ohko baseAcc requiredType nonMatching levelScaling respectImm immuneTypes failHigher st c rs =
     (case getActiveCreature st (attackerPlayerId c) of
        None \<Rightarrow> Inr ([], st, rs)
      | Some atkr \<Rightarrow>
     (case getActiveCreature st (targetPlayerId c) of
        None \<Rightarrow> Inr ([], st, rs)
      | Some tgt \<Rightarrow>
          (let moveName = (\<lambda>dflt. case c_move c of None \<Rightarrow> dflt | Some m \<Rightarrow> mv_name m);
               noEffect = Inr ([Log (moveName ''The move'' @ '' doesn'' @ CHR 0x27 # ''t affect ''
                                     @ cname tgt @ ''!'') (srcMeta c)], st, rs)
           in if (case respectImm of None \<Rightarrow> True | Some b \<Rightarrow> b)
                 \<and> (case moveType c of None \<Rightarrow> False | Some t \<Rightarrow> t \<noteq> [])
                 \<and> getTypeEffectiveness (moveType c) (types tgt) = 0
              then noEffect
              else if (case immuneTypes of None \<Rightarrow> False
                       | Some imm \<Rightarrow> list_ex (\<lambda>t. t \<in> set imm) (types tgt))
              then noEffect
              else if failHigher \<noteq> Some False \<and> level atkr < level tgt
              then Inr ([Log (moveName ''The move'' @ '' failed against the higher-level target.'')
                           (srcMeta c)], st, rs)
              else (let baseAccuracy =
                          (if (case requiredType of None \<Rightarrow> False
                               | Some t \<Rightarrow> t \<noteq> [] \<and> t \<notin> set (types atkr))
                              \<and> nonMatching \<noteq> None
                           then the nonMatching
                           else (case baseAcc of None \<Rightarrow> 3 / 10 | Some b \<Rightarrow> b));
                        accuracy = (if levelScaling \<noteq> Some False
                                    then baseAccuracy + of_int (level atkr - level tgt) / 100
                                    else baseAccuracy);
                        accuracy = max 0 (min 1 accuracy);
                        accuracy = runAbilityValueHook st (attackerPlayerId c)
                                     (onModifyAccuracy (getMoveCategory (c_move c))) accuracy;
                        (roll, rs1) = rngRecorder rs
                    in if roll > accuracy
                       then Inr ([Log (cname atkr @ CHR 0x27 # ''s '' @ moveName ''OHKO move''
                                       @ '' missed!'') (srcMeta c)], st, rs1)
                       else Inr ([Log (cname atkr @ '' used '' @ moveName ''an OHKO move'' @ ''!'')
                                    (srcMeta c),
                                  Damage (targetPlayerId c) (hp tgt)
                                    ((srcMeta c)\<lparr>m_target := Some (targetPlayerId c),
                                         m_ohko := True, m_cancellable := True\<rparr>)],
                                 st, rs1)))))"

definition eff_remove_status :: "string \<Rightarrow> string option \<Rightarrow> state \<Rightarrow> ctx \<Rightarrow> rngst \<Rightarrow> compiled" where
  "eff_remove_status statusId tgt st c rs =
     (let targetId = resolveTarget tgt c
      in if isItemStatus statusId
         then (case getActiveCreature st targetId of
                 None \<Rightarrow> Inr ([], st, rs)
               | Some tc \<Rightarrow>
                   Inr ([Log (giverName c ''Someone'' @ '' removed the held item from '' @ cname tc
                              @ ''.'') (srcMeta c)],
                        updActive targetId clearItemStatus st, rs))
         else Inr ([RemoveStatus targetId statusId (srcMeta c)], st, rs))"

definition eff_damage_ratio :: "string option \<Rightarrow> rat option \<Rightarrow> state \<Rightarrow> ctx \<Rightarrow> rngst \<Rightarrow> compiled" where
  "eff_damage_ratio tgt ratioMaxHp st c rs =
     (let targetId = resolveTarget tgt c
      in case getActiveCreature st targetId of
           None \<Rightarrow> Inr ([], st, rs)
         | Some tc \<Rightarrow>
             (let amount = max 1 \<lfloor>of_int (maxHp tc) * (case ratioMaxHp of None \<Rightarrow> 0 | Some r \<Rightarrow> r)\<rfloor>
              in Inr ([Damage targetId amount
                         ((srcMeta c)\<lparr>m_target := Some targetId, m_cancellable := True\<rparr>)],
                      st, rs)))"

definition eff_delay ::
    "string option \<Rightarrow> int option \<Rightarrow> string option \<Rightarrow> effect list option \<Rightarrow> state \<Rightarrow> ctx \<Rightarrow> rngst
      \<Rightarrow> compiled" where
  "eff_delay tgt afterTurns tm effs st c rs =
     (let targetId = resolveTarget tgt c;
          n = (case afterTurns of None \<Rightarrow> 0 | Some k \<Rightarrow> k)
      in Inr ([ApplyStatus targetId ''delayed_effect'' (Some (n + 1)) False
                 (no_data\<lparr>triggerTurn := Some (turnOf c st + n),
                           seffects := (case effs of None \<Rightarrow> [] | Some es \<Rightarrow> es),
                           sourceId := Some (attackerPlayerId c),
                           d_targetId := Some targetId,
                           timing := Some (case tm of None \<Rightarrow> ''turn_end'' | Some t \<Rightarrow> t)\<rparr>)
                 (srcMeta c)], st, rs))"

definition eff_over_time ::
    "string option \<Rightarrow> int option \<Rightarrow> string option \<Rightarrow> effect list option \<Rightarrow> state \<Rightarrow> ctx \<Rightarrow> rngst
      \<Rightarrow> compiled" where
  "eff_over_time tgt dr tm effs st c rs =
     (let targetId = resolveTarget tgt c
      in Inr ([ApplyStatus targetId ''over_time_effect'' dr False
                 (no_data\<lparr>seffects := (case effs of None \<Rightarrow> [] | Some es \<Rightarrow> es),
                           timing := Some (case tm of None \<Rightarrow> ''turn_end'' | Some t \<Rightarrow> t),
                           sourceId := Some (attackerPlayerId c),
                           d_targetId := Some targetId\<rparr>)
                 (srcMeta c)], st, rs))"

definition eff_apply_item :: "string option \<Rightarrow> string option \<Rightarrow> state \<Rightarrow> ctx \<Rightarrow> rngst \<Rightarrow> compiled" where
  "eff_apply_item tgt iid0 st c rs =
     (let targetId = resolveTarget tgt c
      in case getActiveCreature st targetId of
           None \<Rightarrow> Inr ([], st, rs)
         | Some tc \<Rightarrow>
             (let iid = (case iid0 of None \<Rightarrow> ''item'' | Some i \<Rightarrow> i)
              in Inr ([Log (cname tc @ '' received '' @ iid @ ''.'') (srcMeta c)],
                      updActive targetId (setItemStatus iid) st, rs)))"

definition eff_remove_item :: "string option \<Rightarrow> state \<Rightarrow> ctx \<Rightarrow> rngst \<Rightarrow> compiled" where
  "eff_remove_item tgt st c rs =
     (let targetId = resolveTarget tgt c
      in case getActiveCreature st targetId of
           None \<Rightarrow> Inr ([], st, rs)
         | Some tc \<Rightarrow>
             Inr ([Log (if hasItem (Some tc) then cname tc @ CHR 0x27 # ''s item was removed!''
                        else cname tc @ '' has no item.'') (srcMeta c)],
                  updActive targetId clearItemStatus st, rs))"

definition includesBerry :: "string \<Rightarrow> bool" where
  "includesBerry s = list_ex (\<lambda>k. take 5 (drop k s) = ''berry'') [0..<length s]"

definition eff_consume_item :: "string option \<Rightarrow> bool option \<Rightarrow> state \<Rightarrow> ctx \<Rightarrow> rngst \<Rightarrow> compiled" where
  "eff_consume_item tgt markBerryConsumed st c rs =
     (let targetId = resolveTarget tgt c
      in case getActiveCreature st targetId of
           None \<Rightarrow> Inr ([], st, rs)
         | Some tc \<Rightarrow>
             if \<not> hasItem (Some tc)
             then Inr ([Log (cname tc @ '' has no item to consume.'') (srcMeta c)], st, rs)
             else (let iid = getItemId tc;
                       mark = (markBerryConsumed = Some True
                               \<or> (case iid of None \<Rightarrow> False | Some i \<Rightarrow> i \<noteq> [] \<and> includesBerry i));
                       upd = (\<lambda>x. let y = clearItemStatus x
                                   in if mark
                                      then y\<lparr>statuses := statuses y @ [mkStatus ''berry_consumed'' None no_data]\<rparr>
                                      else y)
                   in Inr ([Log (cname tc @ '' consumed its ''
                                 @ (case iid of None \<Rightarrow> ''item'' | Some i \<Rightarrow> i) @ ''!'') (srcMeta c)],
                           updActive targetId upd st, rs)))"

definition fieldHasAnyStatus :: "state \<Rightarrow> string list \<Rightarrow> bool" where
  "fieldHasAnyStatus st ids = list_ex (\<lambda>e. sid e \<in> set ids) (global st)"

definition evaluateCondition :: "state \<Rightarrow> cond \<Rightarrow> ctx \<Rightarrow> bool" where
  "evaluateCondition st cnd c =
     (let tgt = getActiveCreature st (targetPlayerId c);
          atkr = getActiveCreature st (attackerPlayerId c)
      in case cnd of
           TargetHasStatus s \<Rightarrow>
             if isItemStatus s \<and> hasItem tgt then True
             else (case tgt of None \<Rightarrow> False | Some t \<Rightarrow> hasStatus s t)
         | TargetHpLt v \<Rightarrow>
             (case tgt of
                None \<Rightarrow> False
              | Some t \<Rightarrow> of_int (hp t) / of_int (maxHp t) < (case v of None \<Rightarrow> 0 | Some x \<Rightarrow> x))
         | FieldHasStatus s \<Rightarrow> list_ex (\<lambda>e. sid e = s) (global st)
         | WeatherIsSunny \<Rightarrow> fieldHasAnyStatus st [''sunny_weather'', ''sunny_day'', ''sun'']
         | WeatherIsRaining \<Rightarrow> fieldHasAnyStatus st [''rain'', ''rainy_weather'', ''rain_dance'']
         | WeatherIsHail \<Rightarrow> fieldHasAnyStatus st [''hail'', ''hail_weather'', ''snow'']
         | WeatherIsSandstorm \<Rightarrow> fieldHasAnyStatus st [''sandstorm'', ''sandstorm_weather'']
         | UserType t \<Rightarrow> (case c_attacker c of None \<Rightarrow> False | Some a \<Rightarrow> t \<in> set (types a))
         | UserHasStatus s \<Rightarrow> (case atkr of None \<Rightarrow> False | Some a \<Rightarrow> hasStatus s a)
         | TargetHasItem \<Rightarrow> hasItem tgt
         | UserHasItem \<Rightarrow> hasItem atkr
         | UnknownCond \<Rightarrow> False)"


text \<open>
  The cases that do not recurse. \<open>speed_based_damage\<close> ends in a call of \<open>applyEffect\<close> on a
  \<open>damage\<close> effect it builds, which is the \<open>damage\<close> case.
\<close>

definition applySimple :: "ctx \<Rightarrow> effect \<Rightarrow> state \<Rightarrow> rngst \<Rightarrow> compiled" where
  "applySimple c e st rs =
     (case e of
        EProtect \<Rightarrow> eff_protect st c rs
      | EDamage pwr acc \<Rightarrow> eff_damage pwr acc st c rs
      | ESpeedBasedDamage ths basePower acc \<Rightarrow> eff_speed_based_damage ths basePower acc st c rs
      | EApplyStatus statusId tgt dr ch stk dat \<Rightarrow> eff_apply_status statusId tgt dr ch stk dat st c rs
      | EOhko baseAcc requiredType nonMatching levelScaling respectImm immuneTypes failHigher \<Rightarrow>
          eff_ohko baseAcc requiredType nonMatching levelScaling respectImm immuneTypes failHigher
            st c rs
      | EApplyFieldStatus statusId dr stk dat \<Rightarrow>
          Inr ([ApplyFieldStatus statusId dr (case stk of None \<Rightarrow> False | Some b \<Rightarrow> b)
                  (toSdata dat) (srcMeta c)], st, rs)
      | ERemoveStatus statusId tgt \<Rightarrow> eff_remove_status statusId tgt st c rs
      | ERemoveFieldStatus statusId \<Rightarrow> Inr ([RemoveFieldStatus statusId (srcMeta c)], st, rs)
      | ELog message \<Rightarrow> Inr (if message \<noteq> [] then [Log message (srcMeta c)] else [], st, rs)
      | ECureAllStatus tgt \<Rightarrow> Inr ([CureAllStatus (resolveTarget tgt c) (srcMeta c)], st, rs)
      | EReplaceStatus tgt frm to dr dat \<Rightarrow>
          Inr ([ReplaceStatus (resolveTarget tgt c) frm to dr (toSdata dat) (srcMeta c)], st, rs)
      | EModifyStage tgt stg clamp failIfNoChange showEvent \<Rightarrow>
          Inr ([ModifyStage (resolveTarget tgt c) (case stg of None \<Rightarrow> [] | Some x \<Rightarrow> x)
                  (case clamp of None \<Rightarrow> True | Some b \<Rightarrow> b)
                  (case failIfNoChange of None \<Rightarrow> False | Some b \<Rightarrow> b)
                  (case showEvent of None \<Rightarrow> True | Some b \<Rightarrow> b) (srcMeta c)], st, rs)
      | EClearStages tgt showEvent \<Rightarrow>
          Inr ([ClearStages (resolveTarget tgt c) (case showEvent of None \<Rightarrow> True | Some b \<Rightarrow> b)
                  (srcMeta c)], st, rs)
      | EResetStages tgt showEvent \<Rightarrow>
          Inr ([ResetStages (resolveTarget tgt c) (case showEvent of None \<Rightarrow> True | Some b \<Rightarrow> b)
                  (srcMeta c)], st, rs)
      | EDisableMove tgt dr mvId \<Rightarrow>
          Inr ([ApplyStatus (resolveTarget tgt c) ''disable_move'' dr False
                  (no_data\<lparr>d_moveId := mvId\<rparr>) (srcMeta c)], st, rs)
      | EDamageRatio tgt ratioMaxHp \<Rightarrow> eff_damage_ratio tgt ratioMaxHp st c rs
      | EDelay tgt afterTurns tm effs \<Rightarrow> eff_delay tgt afterTurns tm effs st c rs
      | EOverTime tgt dr tm effs \<Rightarrow> eff_over_time tgt dr tm effs st c rs
      | ERandomMove pool \<Rightarrow>
          Inr ([RandomMove (case pool of None \<Rightarrow> ''all'' | Some x \<Rightarrow> x) (srcMeta c)], st, rs)
      | EApplyItem tgt iid \<Rightarrow> eff_apply_item tgt iid st c rs
      | ERemoveItem tgt \<Rightarrow> eff_remove_item tgt st c rs
      | EConsumeItem tgt markBerryConsumed \<Rightarrow> eff_consume_item tgt markBerryConsumed st c rs
      | ESelfSwitch \<Rightarrow> Inr ([SelfSwitch (attackerPlayerId c)], st, rs)
      | EForceSwitch tgt \<Rightarrow> Inr ([ForceSwitch (resolveTarget tgt c)], st, rs)
      | _ \<Rightarrow> Inr ([], st, rs))"

text \<open>
  The number of repetitions of a \<open>repeat\<close> effect: \<open>times ?? count ?? 1\<close>, and for a
  \<open>{min, max}\<close> range the maximum under Skill Link, else one draw.
\<close>

definition repeatTimes :: "dur option \<Rightarrow> dur option \<Rightarrow> state \<Rightarrow> ctx \<Rightarrow> rngst \<Rightarrow> int \<times> rngst" where
  "repeatTimes times0 count0 st c rs =
     (case (case times0 of Some t \<Rightarrow> Some t | None \<Rightarrow> count0) of
        None \<Rightarrow> (1, rs)
      | Some (DNum n) \<Rightarrow> (n, rs)
      | Some (DRange mn mx) \<Rightarrow>
          if runAbilityCheckHook st (attackerPlayerId c) onSkillLink False then (mx, rs)
          else (let (r, rs1) = rngRecorder rs in (mn + \<lfloor>r * of_int (mx - mn + 1)\<rfloor>, rs1)))"

fun applyEffect :: "ctx \<Rightarrow> effect \<Rightarrow> state \<Rightarrow> rngst \<Rightarrow> compiled"
  and applyEffects :: "ctx \<Rightarrow> effect list \<Rightarrow> state \<Rightarrow> rngst \<Rightarrow> compiled"
  and repeatEffects :: "nat \<Rightarrow> ctx \<Rightarrow> effect list \<Rightarrow> state \<Rightarrow> rngst \<Rightarrow> compiled"
where
  "applyEffect c (EChance p thn els) st rs =
     (let (roll, rs1) = rngRecorder rs
      in if roll \<le> (case p of None \<Rightarrow> 0 | Some x \<Rightarrow> x)
         then (case thn of None \<Rightarrow> Inr ([], st, rs1) | Some es \<Rightarrow> applyEffects c es st rs1)
         else (case els of None \<Rightarrow> Inr ([], st, rs1) | Some es \<Rightarrow> applyEffects c es st rs1))"
| "applyEffect c (ERepeat times0 count0 effs) st rs =
     (let (n, rs1) = repeatTimes times0 count0 st c rs
      in case (case effs of None \<Rightarrow> Inr ([], st, rs1) | Some es \<Rightarrow> repeatEffects (nat n) c es st rs1) of
           Inl x \<Rightarrow> Inl x
         | Inr (collected, st2, rs2) \<Rightarrow>
             Inr (if n > 1
                  then collected @ [Log (''Hit '' @ showInt n @ '' time(s)!'') no_meta]
                  else collected, st2, rs2))"
| "applyEffect c (EConditional cnd thn els) st rs =
     (if evaluateCondition st (case cnd of None \<Rightarrow> UnknownCond | Some x \<Rightarrow> x) c
      then (case thn of None \<Rightarrow> Inr ([], st, rs) | Some es \<Rightarrow> applyEffects c es st rs)
      else (case els of None \<Rightarrow> Inr ([], st, rs) | Some es \<Rightarrow> applyEffects c es st rs))"
| "applyEffect c e st rs = applySimple c e st rs"
| "applyEffects c [] st rs = Inr ([], st, rs)"
| "applyEffects c (e # es) st rs =
     (case applyEffect c e st rs of
        Inl x \<Rightarrow> Inl x
      | Inr (ev1, st1, rs1) \<Rightarrow>
          (case applyEffects c es st1 rs1 of
             Inl x \<Rightarrow> Inl x
           | Inr (ev2, st2, rs2) \<Rightarrow> Inr (ev1 @ ev2, st2, rs2)))"
| "repeatEffects 0 c es st rs = Inr ([], st, rs)"
| "repeatEffects (Suc k) c es st rs =
     (case applyEffects c es st rs of
        Inl x \<Rightarrow> Inl x
      | Inr (ev1, st1, rs1) \<Rightarrow>
          (case repeatEffects k c es st1 rs1 of
             Inl x \<Rightarrow> Inl x
           | Inr (ev2, st2, rs2) \<Rightarrow> Inr (ev1 @ ev2, st2, rs2)))"

section \<open>The event applier (core/events.js)\<close>

definition pendingSwitch :: status where
  "pendingSwitch = mkStatus ''pending_switch'' None no_data"

definition pushPendingSwitch :: "creature \<Rightarrow> creature" where
  "pushPendingSwitch c =
     (if hasStatus ''pending_switch'' c then c else c\<lparr>statuses := statuses c @ [pendingSwitch]\<rparr>)"

text \<open>What the \<open>switch\<close> case does to the outgoing creature.\<close>

definition switchOut :: "creature \<Rightarrow> creature" where
  "switchOut outgoing = outgoing\<lparr>stages := zeroStages,
     statuses := filter (\<lambda>s. sid s \<in> set NON_VOLATILE) (statuses outgoing),
     abilityData := [], copiedAbility := None, volatileData := no_vdata\<rparr>"

text \<open>One step of the loop over \<open>Object.entries(adjusted)\<close> of the \<open>modify_stage\<close> case.\<close>

definition stageStep :: "bool \<Rightarrow> (string \<times> int) list \<Rightarrow> string \<times> int \<Rightarrow> (string \<times> int) list" where
  "stageStep clamp s kd =
     (let prev = stageOf s (fst kd);
          nextStage = prev + snd kd;
          nextStage = (if clamp then max (-6) (min 6 nextStage) else nextStage)
      in AList.update (fst kd) nextStage s)"

fun applyEvent :: "state \<Rightarrow> event \<Rightarrow> js_error + state" where
  "applyEvent st (Log message m) = Inr (if message \<noteq> [] then pushLog message st else st)"
| "applyEvent st (Switch playerId slot) =
     (case findPlayer st playerId of
        None \<Rightarrow> Inr st
      | Some player \<Rightarrow>
          (case slot of
             None \<Rightarrow> Inl TypeError
           | Some s \<Rightarrow>
               (case teamAt (team player) s of
                  None \<Rightarrow> Inl TypeError
                | Some incoming \<Rightarrow>
                    Inr (pushLog (pname player @ '' sent out '' @ cname incoming @ ''!'')
                          (updPlayer playerId (\<lambda>p. p\<lparr>activeSlot := s\<rparr>)
                            (updActive playerId switchOut st))))))"
| "applyEvent st (ApplyStatus targetId statusId duration stack dat m) =
     (case getActiveCreature st targetId of
        None \<Rightarrow> Inr st
      | Some target \<Rightarrow>
          if runAbilityCheckHook st targetId (onCheckStatusImmunity statusId) False
          then Inr (pushLog (cname target @ '' is immune to '' @ statusId @ ''.'') st)
          else if hasStatus statusId target \<and> \<not> stack
          then Inr (pushLog (cname target @ '' already has '' @ statusId @ ''.'') st)
          else Inr (pushLog (cname target @ '' is now '' @ statusId @ ''.'')
                 (updActive targetId
                    (\<lambda>c. c\<lparr>statuses := statuses c @ [mkStatus statusId duration dat]\<rparr>) st)))"
| "applyEvent st (RemoveStatus targetId statusId m) =
     (case getActiveCreature st targetId of
        None \<Rightarrow> Inr st
      | Some target \<Rightarrow>
          (let kept = filter (\<lambda>s. sid s \<noteq> statusId) (statuses target);
               st' = updActive targetId (\<lambda>c. c\<lparr>statuses := kept\<rparr>) st
           in if length (statuses target) \<noteq> length kept
              then Inr (pushLog (cname target @ '' is no longer '' @ statusId @ ''.'') st')
              else Inr st'))"
| "applyEvent st (CureAllStatus targetId m) =
     (case getActiveCreature st targetId of
        None \<Rightarrow> Inr st
      | Some target \<Rightarrow>
          if length (statuses target) > 0
          then Inr (pushLog (cname target @ [CHR 0x27] @ ''s statuses were cured.'')
                 (updActive targetId (\<lambda>c. c\<lparr>statuses := []\<rparr>) st))
          else Inr st)"
| "applyEvent st (ReplaceStatus targetId frm to duration dat m) =
     (case getActiveCreature st targetId of
        None \<Rightarrow> Inr st
      | Some target \<Rightarrow>
          if \<not> hasStatus frm target then Inr st
          else Inr (pushLog (cname target @ [CHR 0x27] @ ''s '' @ frm @ '' changed to '' @ to @ ''.'')
                 (updActive targetId
                    (\<lambda>c. c\<lparr>statuses := filter (\<lambda>s. sid s \<noteq> frm) (statuses c)
                                          @ [mkStatus to duration dat]\<rparr>) st)))"
| "applyEvent st (ApplyFieldStatus statusId duration stack dat m) =
     (case findIndex (\<lambda>s. sid s = statusId) (global st) of
        Some existingIndex \<Rightarrow>
          if \<not> stack
          then Inr (st\<lparr>global := (global st)[existingIndex := mkStatus statusId duration dat]\<rparr>)
          else Inr (st\<lparr>global := global st @ [mkStatus statusId duration dat]\<rparr>)
      | None \<Rightarrow> Inr (st\<lparr>global := global st @ [mkStatus statusId duration dat]\<rparr>))"
| "applyEvent st (RemoveFieldStatus statusId m) =
     Inr (st\<lparr>global := filter (\<lambda>s. sid s \<noteq> statusId) (global st)\<rparr>)"
| "applyEvent st (RandomMove pool m) = Inr st"
| "applyEvent st (ModifyStage targetId stg clamp failIfNoChange showEvent m) =
     (case getActiveCreature st targetId of
        None \<Rightarrow> Inr st
      | Some target \<Rightarrow>
          (let adjusted = runAbilityValueHook st targetId onModifyStage stg;
               before0 = stages target;
               after0 = foldl (stageStep clamp) before0 adjusted;
               st' = updActive targetId (\<lambda>c. c\<lparr>stages := after0\<rparr>) st;
               changed = list_ex (\<lambda>k. map_of before0 k \<noteq> map_of after0 k) (map fst adjusted)
           in if \<not> changed \<and> failIfNoChange
              then Inr (pushLog (cname target @ [CHR 0x27] @ ''s stats did not change.'') st')
              else if changed \<and> showEvent
              then Inr (pushLog (cname target @ [CHR 0x27] @ ''s stages: '' @ formatStages before0
                          @ '' -> '' @ formatStages after0) st')
              else Inr st'))"
| "applyEvent st (ClearStages targetId showEvent m) =
     (case getActiveCreature st targetId of
        None \<Rightarrow> Inr st
      | Some target \<Rightarrow>
          (let st' = updActive targetId (\<lambda>c. c\<lparr>stages := zeroStages\<rparr>) st
           in if showEvent
              then Inr (pushLog (cname target @ [CHR 0x27] @ ''s stages were cleared (''
                          @ formatStages (stages target) @ '' -> '' @ formatStages zeroStages
                          @ '').'') st')
              else Inr st'))"
| "applyEvent st (ResetStages targetId showEvent m) =
     (case getActiveCreature st targetId of
        None \<Rightarrow> Inr st
      | Some target \<Rightarrow>
          (let st' = updActive targetId (\<lambda>c. c\<lparr>stages := zeroStages\<rparr>) st
           in if showEvent
              then Inr (pushLog (cname target @ [CHR 0x27] @ ''s stages were reset (''
                          @ formatStages (stages target) @ '' -> '' @ formatStages zeroStages
                          @ '').'') st')
              else Inr st'))"
| "applyEvent st (Damage targetId amount m) =
     (case getActiveCreature st targetId of
        None \<Rightarrow> Inr st
      | Some target \<Rightarrow>
          (let before0 = hp target;
               after0 = max 0 (before0 - amount);
               st1 = pushLog (cname target @ '' took '' @ showInt amount @ '' damage (''
                       @ showInt before0 @ '' -> '' @ showInt after0 @ '')'')
                       (updActive targetId (\<lambda>c. c\<lparr>hp := after0\<rparr>) st)
           in if after0 = 0
              then Inr (updActive targetId pushPendingSwitch
                     (updPlayer targetId (\<lambda>p. p\<lparr>lastFaintedAbility := Some (ability target)\<rparr>)
                       (pushLog (cname target @ '' fainted!'') st1)))
              else Inr st1))"
| "applyEvent st (SelfSwitch targetId) = Inr (updActive targetId pushPendingSwitch st)"
| "applyEvent st (ForceSwitch targetId) = Inr (updActive targetId pushPendingSwitch st)"

text \<open>\<open>applyEvents\<close>: the applier over a list; the first exception ends the run.\<close>

fun applyEvents :: "state \<Rightarrow> event list \<Rightarrow> js_error + state" where
  "applyEvents st [] = Inr st"
| "applyEvents st (ev # evs) =
     (case applyEvent st ev of Inl x \<Rightarrow> Inl x | Inr st1 \<Rightarrow> applyEvents st1 evs)"


section \<open>Event helpers\<close>

definition evType :: "event \<Rightarrow> string" where
  "evType e = (case e of
      Log a b \<Rightarrow> ''log''
    | Switch a b \<Rightarrow> ''switch''
    | ApplyStatus a b c d e f \<Rightarrow> ''apply_status''
    | RemoveStatus a b c \<Rightarrow> ''remove_status''
    | CureAllStatus a b \<Rightarrow> ''cure_all_status''
    | ReplaceStatus a b c d e f \<Rightarrow> ''replace_status''
    | ApplyFieldStatus a b c d e \<Rightarrow> ''apply_field_status''
    | RemoveFieldStatus a b \<Rightarrow> ''remove_field_status''
    | RandomMove a b \<Rightarrow> ''random_move''
    | ModifyStage a b c d e f \<Rightarrow> ''modify_stage''
    | ClearStages a b c \<Rightarrow> ''clear_stages''
    | ResetStages a b c \<Rightarrow> ''reset_stages''
    | Damage a b c \<Rightarrow> ''damage''
    | SelfSwitch a \<Rightarrow> ''self_switch''
    | ForceSwitch a \<Rightarrow> ''force_switch'')"

text \<open>\<open>event.targetId\<close> and \<open>event.meta\<close>, \<open>undefined\<close> for the events that have none.\<close>

definition evTargetId :: "event \<Rightarrow> string option" where
  "evTargetId e = (case e of
      ApplyStatus a b c d e f \<Rightarrow> Some a
    | RemoveStatus a b c \<Rightarrow> Some a
    | CureAllStatus a b \<Rightarrow> Some a
    | ReplaceStatus a b c d e f \<Rightarrow> Some a
    | ModifyStage a b c d e f \<Rightarrow> Some a
    | ClearStages a b c \<Rightarrow> Some a
    | ResetStages a b c \<Rightarrow> Some a
    | Damage a b c \<Rightarrow> Some a
    | SelfSwitch a \<Rightarrow> Some a
    | ForceSwitch a \<Rightarrow> Some a
    | _ \<Rightarrow> None)"

definition evMeta :: "event \<Rightarrow> meta" where
  "evMeta e = (case e of
      Log a m \<Rightarrow> m
    | ApplyStatus a b c d e m \<Rightarrow> m
    | RemoveStatus a b m \<Rightarrow> m
    | CureAllStatus a m \<Rightarrow> m
    | ReplaceStatus a b c d e m \<Rightarrow> m
    | ApplyFieldStatus a b c d m \<Rightarrow> m
    | RemoveFieldStatus a m \<Rightarrow> m
    | RandomMove a m \<Rightarrow> m
    | ModifyStage a b c d e m \<Rightarrow> m
    | ClearStages a b m \<Rightarrow> m
    | ResetStages a b m \<Rightarrow> m
    | Damage a b m \<Rightarrow> m
    | _ \<Rightarrow> no_meta)"

text \<open>\<open>{...event, targetId: t, meta: m}\<close> for the events Magic Bounce reflects.\<close>

definition retarget :: "string \<Rightarrow> meta \<Rightarrow> event \<Rightarrow> event" where
  "retarget t m e = (case e of
      ApplyStatus a b c d e f \<Rightarrow> ApplyStatus t b c d e m
    | RemoveStatus a b c \<Rightarrow> RemoveStatus t b m
    | CureAllStatus a b \<Rightarrow> CureAllStatus t m
    | ReplaceStatus a b c d e f \<Rightarrow> ReplaceStatus t b c d e m
    | ModifyStage a b c d e f \<Rightarrow> ModifyStage t b c d e m
    | ClearStages a b c \<Rightarrow> ClearStages t b m
    | ResetStages a b c \<Rightarrow> ResetStages t b m
    | x \<Rightarrow> x)"

definition isReflectableStatusEvent :: "string \<Rightarrow> bool" where
  "isReflectableStatusEvent ty =
     (ty \<in> set [''apply_status'', ''remove_status'', ''replace_status'', ''modify_stage'',
                 ''clear_stages'', ''reset_stages'', ''disable_move'', ''cure_all_status''])"

definition plainLog :: "string \<Rightarrow> event" where
  "plainLog m = Log m no_meta"

definition selfMeta :: "string \<Rightarrow> meta" where
  "selfMeta i = no_meta\<lparr>m_source := Some i\<rparr>"

definition fromMeta :: "string \<Rightarrow> meta" where
  "fromMeta f = no_meta\<lparr>m_from := Some f\<rparr>"

text \<open>A \<open>modify_stage\<close> event as the registries build it: the other fields take their defaults.\<close>

definition stageEvent :: "string \<Rightarrow> (string \<times> int) list \<Rightarrow> meta \<Rightarrow> event" where
  "stageEvent i stg m = ModifyStage i stg True False True m"

section \<open>The status registry (statuses/index.js)\<close>

text \<open>
  The hooks the resolver runs. A handler returns an object with some of the fields
  \<open>state\<close>, \<open>events\<close>, \<open>preventAction\<close>, \<open>overrideAction\<close> and \<open>eventTransforms\<close>. Every
  \<open>overrideAction\<close> of the registry is \<open>{...action.action, moveId: m}\<close>, a copy of the
  current action with another move, so the record keeps the move id \<open>m\<close>. \<open>r_fresh\<close> tells
  that the returned state is a new object (it went through the event applier, which clones)
  and \<open>r_turns\<close> is the number Yawn writes into \<open>status.data.turns\<close> of the status object it
  was called with.
\<close>

datatype hook = OnTurnStart | OnTurnEnd | OnBeforeAction | OnEventTransform | OnSwitchIn

record transform =
  tr_type :: string
  tr_from :: "string option"
  tr_target :: "string option"
  tr_targetType :: "string option"
  tr_targetId :: "string option"
  tr_to :: "event list option"
  tr_priority :: "int option"

record hookres =
  r_state :: "state option"
  r_fresh :: bool
  r_events :: "event list"
  r_prevent :: bool
  r_override :: "string option"
  r_transforms :: "transform list"
  r_turns :: "int option"

definition noRes :: hookres where
  "noRes = \<lparr>r_state = None, r_fresh = False, r_events = [], r_prevent = False,
     r_override = None, r_transforms = [], r_turns = None\<rparr>"

definition withEvents :: "event list \<Rightarrow> hookres" where
  "withEvents evs = noRes\<lparr>r_events := evs\<rparr>"

definition preventing :: "event list \<Rightarrow> hookres" where
  "preventing evs = noRes\<lparr>r_events := evs, r_prevent := True\<rparr>"

definition overriding :: "string \<Rightarrow> event list \<Rightarrow> hookres" where
  "overriding m evs = noRes\<lparr>r_events := evs, r_override := Some m\<rparr>"

text \<open>A string that is neither \<open>undefined\<close> nor empty.\<close>

definition truthy :: "string option \<Rightarrow> bool" where
  "truthy s = (case s of None \<Rightarrow> False | Some x \<Rightarrow> x \<noteq> [])"

text \<open>\<open>moves[id]\<close>; no move of the table is called \<open>undefined\<close>.\<close>

definition moveOf :: "(string \<times> move) list \<Rightarrow> string option \<Rightarrow> move option" where
  "moveOf mvs i = (case i of None \<Rightarrow> None | Some k \<Rightarrow> map_of mvs k)"

definition findLastMoveFromHistory :: "state \<Rightarrow> string \<Rightarrow> string option" where
  "findLastMoveFromHistory st playerId =
     (case history st of
        None \<Rightarrow> None
      | Some ts \<Rightarrow>
          (case find (\<lambda>a. a_playerId a = playerId \<and> truthy (a_moveId a))
                  (concat (map (\<lambda>t. rev (t_actions t)) (rev ts))) of
             None \<Rightarrow> None
           | Some a \<Rightarrow> a_moveId a))"

definition matchesTiming :: "hook \<Rightarrow> string \<Rightarrow> bool" where
  "matchesTiming h tm =
     (if tm = [] then True
      else let t = toLowerCase tm
           in if t = ''turn_start'' then h = OnTurnStart
              else if t = ''turn_end'' then h = OnTurnEnd
              else True)"

text \<open>
  The common part of \<open>handleDelayed\<close> and \<open>handleOverTime\<close>: the stored effects are compiled
  against the handler's state and their events applied to it.
\<close>

definition runStored :: "state \<Rightarrow> string \<Rightarrow> status \<Rightarrow> rngst \<Rightarrow> js_error + hookres \<times> rngst" where
  "runStored st playerId s rs =
     (let targetId = (case d_targetId (sdata s) of Some t \<Rightarrow> t | None \<Rightarrow> playerId);
          attackerId = (case sourceId (sdata s) of Some a \<Rightarrow> a | None \<Rightarrow> playerId);
          baseCtx = \<lparr>c_attacker = getActiveCreature st attackerId,
                     c_target = getActiveCreature st targetId, c_move = None,
                     attackerPlayerId = attackerId, targetPlayerId = targetId,
                     c_turn = Some (turn st)\<rparr>
      in case applyEffects baseCtx (seffects (sdata s)) st rs of
           Inl x \<Rightarrow> Inl x
         | Inr (evs, st1, rs1) \<Rightarrow>
             (case applyEvents st1 evs of
                Inl x \<Rightarrow> Inl x
              | Inr st2 \<Rightarrow> Inr (noRes\<lparr>r_state := Some st2, r_fresh := (evs \<noteq> [])\<rparr>, rs1)))"

definition handleDelayed ::
    "hook \<Rightarrow> state \<Rightarrow> string \<Rightarrow> status \<Rightarrow> rngst \<Rightarrow> js_error + hookres \<times> rngst" where
  "handleDelayed h st playerId s rs =
     (if \<not> matchesTiming h (case timing (sdata s) of None \<Rightarrow> ''turn_end'' | Some t \<Rightarrow> t)
      then Inr (noRes, rs)
      else case triggerTurn (sdata s) of
             None \<Rightarrow> Inr (noRes, rs)
           | Some t \<Rightarrow> if turn st < t then Inr (noRes, rs) else runStored st playerId s rs)"

definition handleOverTime ::
    "hook \<Rightarrow> state \<Rightarrow> string \<Rightarrow> status \<Rightarrow> rngst \<Rightarrow> js_error + hookres \<times> rngst" where
  "handleOverTime h st playerId s rs =
     (if \<not> matchesTiming h (case timing (sdata s) of None \<Rightarrow> ''turn_end'' | Some t \<Rightarrow> t)
      then Inr (noRes, rs)
      else runStored st playerId s rs)"

text \<open>The loop of Protect's \<open>onEventTransform\<close> over the incoming events.\<close>

fun protectLoop :: "string \<Rightarrow> creature \<Rightarrow> event list \<Rightarrow> string list \<Rightarrow> transform list" where
  "protectLoop i a [] protectedTypes = []"
| "protectLoop i a (ev # evs) protectedTypes =
     (if evType ev = ''damage'' \<or> evType ev = ''apply_status'' \<or> evType ev = ''modify_stage''
      then if m_source (evMeta ev) = Some i then protectLoop i a evs protectedTypes
           else if evType ev \<notin> set protectedTypes
           then \<lparr>tr_type = ''replace_event'', tr_from = Some (evType ev), tr_target = None,
                  tr_targetType = None, tr_targetId = Some i,
                  tr_to = Some [plainLog (cname a @ '' protected itself!'')],
                  tr_priority = None\<rparr>
                # protectLoop i a evs (protectedTypes @ [evType ev])
           else protectLoop i a evs protectedTypes
      else protectLoop i a evs protectedTypes)"

text \<open>
  The registry, for a status on a creature: \<open>impl[hook]\<close> called with the working state, the
  player's id and active creature (\<open>player.active\<close>), the status, the action and move of an
  \<open>onBeforeAction\<close> context and the events of an \<open>onEventTransform\<close> context. \<open>None\<close> where
  the status has no handler for the hook. The float factors \<open>0.1\<close>, \<open>0.2\<close> and \<open>0.33\<close> are the
  fractions they denote.
\<close>

definition statusHook ::
    "hook \<Rightarrow> state \<Rightarrow> string \<Rightarrow> creature \<Rightarrow> status \<Rightarrow> action option \<Rightarrow> move option \<Rightarrow> event list
      \<Rightarrow> rngst \<Rightarrow> (js_error + hookres \<times> rngst) option" where
  "statusHook h st playerId active s act mv evs rs =
     (let nm = cname active; dat = sdata s; i = sid s;
          actMove = (case act of None \<Rightarrow> None | Some a \<Rightarrow> a_moveId a)
      in
      if i = ''burn'' \<and> h = OnTurnEnd
      then Some (Inr (withEvents
             [Damage playerId (max 1 (maxHp active div 16)) (fromMeta ''burn''),
              plainLog (nm @ '' is hurt by its burn!'')], rs))
      else if i = ''poison'' \<and> h = OnTurnEnd
      then Some (Inr (withEvents
             [Damage playerId (max 1 (maxHp active div 8)) (fromMeta ''poison''),
              plainLog (nm @ '' is hurt by poison!'')], rs))
      else if i = ''paralysis'' \<and> h = OnBeforeAction
      then (let (r, rs1) = rngRecorder rs
            in Some (Inr (if r < 1 / 4 then preventing [plainLog ''It is fully paralyzed!'']
                          else noRes, rs1)))
      else if i = ''sleep'' \<and> h = OnBeforeAction
      then Some (Inr (preventing [plainLog (nm @ '' is fast asleep.'')], rs))
      else if i = ''freeze'' \<and> h = OnBeforeAction
      then (let (r, rs1) = rngRecorder rs
            in Some (Inr (if r < 1 / 5
                          then withEvents [RemoveStatus playerId ''freeze'' no_meta,
                                           plainLog (nm @ '' thawed out!'')]
                          else preventing [plainLog (nm @ '' is frozen solid!'')], rs1)))
      else if i = ''confusion'' \<and> h = OnBeforeAction
      then (let (r, rs1) = rngRecorder rs
            in Some (Inr (if r < 33 / 100
                          then preventing
                                 [plainLog (nm @ '' hurt itself in its confusion!''),
                                  Damage playerId (max 1 (maxHp active div 10))
                                    (fromMeta ''confusion'')]
                          else noRes, rs1)))
      else if i = ''flinch'' \<and> h = OnBeforeAction
      then Some (Inr (preventing [plainLog ''It flinched!''], rs))
      else if i = ''protect'' \<and> h = OnEventTransform
      then Some (Inr (noRes\<lparr>r_transforms :=
             protectLoop playerId active (filter (\<lambda>e. evTargetId e = Some playerId) evs) []\<rparr>, rs))
      else if i = ''lock_move'' \<and> h = OnBeforeAction
      then (let lastMove0 = (case lastMove (volatileData active) of
                               Some m \<Rightarrow> Some m
                             | None \<Rightarrow> findLastMoveFromHistory st playerId)
            in Some (Inr (
                 if mode dat = Some ''force_last_move'' \<and> truthy lastMove0
                 then overriding (the lastMove0)
                        [plainLog (nm @ '' is locked into '' @ the lastMove0 @ ''!'')]
                 else if mode dat = Some ''force_specific'' \<and> truthy (d_moveId dat)
                 then overriding (the (d_moveId dat))
                        [plainLog (nm @ '' must use '' @ the (d_moveId dat) @ ''!'')]
                 else noRes, rs)))
      else if i = ''disable_move'' \<and> h = OnBeforeAction
      then Some (Inr (
             if \<not> truthy (d_moveId dat) then noRes
             else if actMove = d_moveId dat
             then preventing [plainLog (nm @ '' cannot use '' @ the (d_moveId dat) @ ''!'')]
             else noRes, rs))
      else if i = ''encore'' \<and> h = OnBeforeAction
      then Some (Inr (
             if \<not> truthy (d_moveId dat) then noRes
             else if actMove \<noteq> d_moveId dat
             then overriding (the (d_moveId dat)) [plainLog (nm @ '' received an encore!'')]
             else noRes, rs))
      else if i = ''taunt'' \<and> h = OnBeforeAction
      then Some (Inr (
             case mv of
               None \<Rightarrow> noRes
             | Some m \<Rightarrow>
                 if category m = Some ''status''
                 then preventing [plainLog (nm @ '' can'' @ [CHR 0x27] @ ''t use '' @ mv_name m
                                             @ '' after the taunt!'')]
                 else noRes, rs))
      else if i = ''leech_seed'' \<and> h = OnTurnEnd
      then Some (Inr (
             if \<not> truthy (sourceId dat) then noRes
             else case getActiveCreature st (the (sourceId dat)) of
                    None \<Rightarrow> noRes
                  | Some tg \<Rightarrow>
                      if hp tg \<le> 0 then noRes
                      else withEvents
                             [plainLog (nm @ [CHR 0x27] @ ''s health is sapped by Leech Seed!''),
                              Damage playerId (max 1 (maxHp active div 8)) (fromMeta ''leech_seed''),
                              Damage (the (sourceId dat)) (- max 1 (maxHp active div 8))
                                (fromMeta ''leech_seed_heal'')], rs))
      else if i = ''curse'' \<and> h = OnTurnEnd
      then Some (Inr (withEvents
             [plainLog (nm @ '' is afflicted by the curse!''),
              Damage playerId (max 1 (maxHp active div 4)) (fromMeta ''curse'')], rs))
      else if i = ''yawn'' \<and> h = OnTurnEnd
      then (let n = (case turns dat of None \<Rightarrow> 1 | Some k \<Rightarrow> k)
            in if n > 0
               then Some (Inr ((withEvents [plainLog (nm @ '' is getting drowsy...'')])
                                 \<lparr>r_turns := Some (n - 1)\<rparr>, rs))
               else let (r, rs1) = rngRecorder rs;
                        duration = 2 + \<lfloor>r * 3\<rfloor>
                    in Some (Inr (withEvents
                         [RemoveStatus playerId ''yawn'' no_meta,
                          ApplyStatus playerId ''sleep'' (Some duration) False no_data no_meta],
                         rs1)))
      else if i = ''charging_solar_beam'' \<and> h = OnBeforeAction
      then Some (Inr (
             if mode dat = Some ''force_specific'' \<and> truthy (d_moveId dat)
             then overriding (the (d_moveId dat)) []
             else noRes, rs))
      else if i = ''delayed_effect'' \<and> (h = OnTurnStart \<or> h = OnTurnEnd)
      then Some (handleDelayed h st playerId s rs)
      else if i = ''over_time_effect'' \<and> h = OnTurnEnd
      then Some (handleOverTime h st playerId s rs)
      else None)"

text \<open>
  Yawn's write goes to the status object of the state \<open>runStatusHooks\<close> was called with; it
  is the status number \<open>k\<close> of the player's active creature.
\<close>

definition setTurns :: "string \<Rightarrow> nat \<Rightarrow> int \<Rightarrow> state \<Rightarrow> state" where
  "setTurns i k n st =
     updActive i (\<lambda>c. if k < length (statuses c)
                       then c\<lparr>statuses := (statuses c)
                              [k := (statuses c ! k)\<lparr>sdata := (sdata (statuses c ! k))\<lparr>turns := Some n\<rparr>\<rparr>]\<rparr>
                       else c) st"

text \<open>
  \<open>runStatusHooks\<close>. The handlers see the player and the statuses of the state the function
  was called with and the working state, which a handler may replace. \<open>same\<close> holds while
  the working state is still the object the function was called with: only then does it
  show Yawn's write.
\<close>

fun statusLoop ::
    "hook \<Rightarrow> string \<Rightarrow> creature \<Rightarrow> action option \<Rightarrow> move option \<Rightarrow> event list
      \<Rightarrow> (nat \<times> status) list \<Rightarrow> bool \<Rightarrow> hookres \<Rightarrow> state \<Rightarrow> rngst
      \<Rightarrow> js_error + (hookres \<times> state \<times> rngst)" where
  "statusLoop h i a act mv evs [] same acc workingState rs = Inr (acc, workingState, rs)"
| "statusLoop h i a act mv evs (ks # rest) same acc workingState rs =
     (case statusHook h workingState i a (snd ks) act mv evs rs of
        None \<Rightarrow> statusLoop h i a act mv evs rest same acc workingState rs
      | Some (Inl x) \<Rightarrow> Inl x
      | Some (Inr (res, rs1)) \<Rightarrow>
          statusLoop h i a act mv evs rest (same \<and> \<not> r_fresh res)
            (acc\<lparr>r_events := r_events acc @ r_events res,
                 r_prevent := (r_prevent acc \<or> r_prevent res),
                 r_override := (case r_override res of None \<Rightarrow> r_override acc | Some m \<Rightarrow> Some m),
                 r_transforms := r_transforms acc @ r_transforms res\<rparr>)
            (case r_state res of
               Some st1 \<Rightarrow> st1
             | None \<Rightarrow> (case r_turns res of
                          None \<Rightarrow> workingState
                        | Some n \<Rightarrow> if same then setTurns i (fst ks) n workingState
                                    else workingState))
            rs1)"

definition runStatusHooks ::
    "hook \<Rightarrow> state \<Rightarrow> string \<Rightarrow> action option \<Rightarrow> move option \<Rightarrow> event list \<Rightarrow> rngst
      \<Rightarrow> js_error + (hookres \<times> state \<times> rngst)" where
  "runStatusHooks h st playerId act mv evs rs =
     (case getActiveCreature st playerId of
        None \<Rightarrow> Inr (noRes, st, rs)
      | Some active \<Rightarrow>
          statusLoop h playerId active act mv evs
            (zip [0..<length (statuses active)] (statuses active)) True noRes st rs)"

text \<open>
  \<open>runFieldHooks\<close> looks the field effects up in the same registry and calls the handler
  without player and status, and with the bare action. A handler that reads \<open>player.active\<close>,
  \<open>player.id\<close> or \<open>status.data\<close> raises a TypeError there; the others return their events, and
  none returns a state or a transform.
\<close>

definition fieldHook :: "hook \<Rightarrow> string \<Rightarrow> event list \<Rightarrow> rngst \<Rightarrow> (js_error + event list \<times> rngst) option" where
  "fieldHook h i evs rs =
     (if h = OnTurnEnd \<and> i \<in> set [''burn'', ''poison'', ''leech_seed'', ''curse'', ''yawn'',
                                   ''delayed_effect'', ''over_time_effect'']
      then Some (Inl TypeError)
      else if h = OnTurnStart \<and> i = ''delayed_effect'' then Some (Inl TypeError)
      else if h = OnBeforeAction \<and> i = ''paralysis''
      then (let (r, rs1) = rngRecorder rs
            in Some (Inr (if r < 1 / 4 then [plainLog ''It is fully paralyzed!''] else [], rs1)))
      else if h = OnBeforeAction \<and> i = ''confusion''
      then (let (r, rs1) = rngRecorder rs
            in if r < 33 / 100 then Some (Inl TypeError) else Some (Inr ([], rs1)))
      else if h = OnBeforeAction \<and> i = ''flinch'' then Some (Inr ([plainLog ''It flinched!''], rs))
      else if h = OnBeforeAction \<and> i \<in> set [''disable_move'', ''encore'', ''taunt'']
      then Some (Inr ([], rs))
      else if h = OnBeforeAction \<and> i \<in> set [''sleep'', ''freeze'', ''lock_move'',
                                             ''charging_solar_beam'']
      then Some (Inl TypeError)
      else if h = OnEventTransform \<and> i = ''protect''
      then Some (if evs = [] then Inr ([], rs) else Inl TypeError)
      else None)"

fun fieldLoop :: "hook \<Rightarrow> event list \<Rightarrow> status list \<Rightarrow> event list \<Rightarrow> rngst
      \<Rightarrow> js_error + (event list \<times> rngst)" where
  "fieldLoop h evs [] acc rs = Inr (acc, rs)"
| "fieldLoop h evs (e # es) acc rs =
     (case fieldHook h (sid e) evs rs of
        None \<Rightarrow> fieldLoop h evs es acc rs
      | Some (Inl x) \<Rightarrow> Inl x
      | Some (Inr (out, rs1)) \<Rightarrow> fieldLoop h evs es (acc @ out) rs1)"

definition runFieldHooks :: "hook \<Rightarrow> state \<Rightarrow> event list \<Rightarrow> rngst \<Rightarrow> js_error + (event list \<times> rngst)" where
  "runFieldHooks h st evs rs = fieldLoop h evs (global st) [] rs"

definition tickList :: "status list \<Rightarrow> status list" where
  "tickList xs =
     filter (\<lambda>s. case remainingTurns s of None \<Rightarrow> True | Some n \<Rightarrow> n > 0)
       (map (\<lambda>s. s\<lparr>remainingTurns := map_option (\<lambda>n. n - 1) (remainingTurns s)\<rparr>) xs)"

definition tickStatuses :: "state \<Rightarrow> state" where
  "tickStatuses st =
     st\<lparr>players := map (\<lambda>p. p\<lparr>team := updTeamAt (activeSlot p)
                                 (\<lambda>c. c\<lparr>statuses := tickList (statuses c)\<rparr>) (team p)\<rparr>)
                       (players st)\<rparr>"

definition tickFieldEffects :: "state \<Rightarrow> state" where
  "tickFieldEffects st = st\<lparr>global := tickList (global st)\<rparr>"

section \<open>Abilities that answer with events (abilities/index.js)\<close>

definition markAbilityUsed :: "state \<Rightarrow> string \<Rightarrow> string \<Rightarrow> state" where
  "markAbilityUsed st playerId key =
     updActive playerId
       (\<lambda>c. c\<lparr>abilityData := (if key \<in> set (abilityData c) then abilityData c
                                else abilityData c @ [key])\<rparr>) st"

definition BAN_COPY_ABILITIES :: "string list" where
  "BAN_COPY_ABILITIES = [''receiver'', ''power_of_alchemy'', ''trace'', ''wonder_guard'',
     ''forecast'', ''flower_gift'', ''multitype'', ''illusion'', ''imposter'', ''stance_change'',
     ''power_construct'', ''schooling'', ''comatose'', ''shields_down'', ''disguise'',
     ''battle_bond'', ''rk_system'', ''ice_face'', ''gulp_missile'', ''hung_switch'',
     ''commander'', ''quark_drive'', ''protosynthesis'']"

definition copyFaintedAbility :: "state \<Rightarrow> player \<Rightarrow> string \<Rightarrow> hookres" where
  "copyFaintedAbility st p abilityId =
     (case lastFaintedAbility p of
        None \<Rightarrow> noRes
      | Some last0 \<Rightarrow>
          if last0 = [] then noRes
          else if last0 = abilityId \<or> last0 \<in> set BAN_COPY_ABILITIES then noRes
          else (case getActiveCreature st (pid p) of
                  None \<Rightarrow> noRes
                | Some c \<Rightarrow>
                    if ability c \<noteq> abilityId then noRes
                    else noRes\<lparr>r_state := Some (updActive (pid p)
                                   (\<lambda>x. x\<lparr>ability := last0, copiedAbility := Some last0\<rparr>) st),
                               r_fresh := True,
                               r_events := [plainLog (cname c @ '' copied '' @ last0 @ ''!'')]\<rparr>))"

text \<open>
  Moody draws a stat to raise and then draws again until the stat to lower is another one.
  The loop has no bound: under a source that keeps answering with the same stat the call
  does not return, which is the value \<open>None\<close> here.
\<close>

definition moodyStat :: "rat \<Rightarrow> string" where
  "moodyStat r =
     (let k = \<lfloor>r * 5\<rfloor>
      in if 0 \<le> k \<and> k < 5 then [''atk'', ''def'', ''spa'', ''spd'', ''spe''] ! nat k
         else ''undefined'')"

partial_function (option) moodyDown :: "string \<Rightarrow> rngst \<Rightarrow> (string \<times> rngst) option" where
  "moodyDown up rs =
     (case rngRecorder rs of
        (r, rs1) \<Rightarrow> if moodyStat r = up then moodyDown up rs1 else Some (moodyStat r, rs1))"

declare moodyDown.simps [code]

text \<open>
  The handlers of \<open>onSwitchIn\<close>, \<open>onTurnEnd\<close> and \<open>onBeforeAction\<close> (no ability has an
  \<open>onTurnStart\<close> handler), called with the state, the player, its active creature and the
  action of an \<open>onBeforeAction\<close> context.
\<close>

definition abilityHook ::
    "hook \<Rightarrow> (string \<times> move) list \<Rightarrow> state \<Rightarrow> player \<Rightarrow> creature \<Rightarrow> action option \<Rightarrow> rngst
      \<Rightarrow> (js_error + hookres \<times> rngst) option" where
  "abilityHook h mvs st p active act rs =
     (let ab = ability active; i = pid p
      in
      if ab = ''intimidate'' \<and> h = OnSwitchIn
      then Some (Inr (
             if ''intimidateUsed'' \<in> set (abilityData active) then noRes
             else let next0 = markAbilityUsed st i ''intimidateUsed''
                  in noRes\<lparr>r_state := Some next0, r_fresh := True,
                       r_events := map (\<lambda>other. stageEvent (pid other) [(''atk'', - 1)] (selfMeta i))
                         (filter (\<lambda>other. pid other \<noteq> i
                                    \<and> getActiveCreature next0 (pid other) \<noteq> None
                                    \<and> \<not> runAbilityCheckHook next0 (pid other)
                                          (onImmunity ''intimidate'') False)
                            (players next0))\<rparr>, rs))
      else if ab = ''download'' \<and> h = OnSwitchIn
      then Some (Inr (
             if ''downloadUsed'' \<in> set (abilityData active) then noRes
             else case find (\<lambda>q. pid q \<noteq> i) (players st) of
                    None \<Rightarrow> noRes
                  | Some targetPlayer \<Rightarrow>
                      (case getActiveCreature st (pid targetPlayer) of
                         None \<Rightarrow> noRes
                       | Some tg \<Rightarrow>
                           noRes\<lparr>r_state := Some (markAbilityUsed st i ''downloadUsed''),
                                 r_fresh := True,
                                 r_events := [stageEvent i
                                   [(if defense tg < spDefense tg then ''atk'' else ''spa'', 1)]
                                   (selfMeta i)]\<rparr>), rs))
      else if ab = ''drought'' \<and> h = OnSwitchIn
      then Some (Inr (
             if ''droughtUsed'' \<in> set (abilityData active) then noRes
             else noRes\<lparr>r_state := Some (pushLog ''The sunlight turned harsh.''
                                   (setWeather (markAbilityUsed st i ''droughtUsed'') ''sun'' (Some 5))),
                        r_fresh := True\<rparr>, rs))
      else if ab = ''moody'' \<and> h = OnTurnEnd
      then (let (r, rs1) = rngRecorder rs; up = moodyStat r
            in case moodyDown up rs1 of
                 None \<Rightarrow> Some (Inl NoReturn)
               | Some (down, rs2) \<Rightarrow>
                   Some (Inr (withEvents [stageEvent i [(up, 2), (down, - 1)] (selfMeta i)], rs2)))
      else if ab = ''libero'' \<and> h = OnBeforeAction
      then Some (Inr (
             case moveOf mvs (case act of None \<Rightarrow> None | Some a \<Rightarrow> a_moveId a) of
               None \<Rightarrow> noRes
             | Some m \<Rightarrow>
                 if \<not> truthy (mv_type m) then noRes
                 else if ''liberoUsed'' \<in> set (abilityData active) then noRes
                 else noRes\<lparr>r_state := Some (markAbilityUsed
                                 (updActive i (\<lambda>c. c\<lparr>types := [the (mv_type m)]\<rparr>) st) i ''liberoUsed''),
                            r_fresh := True,
                            r_events := [plainLog (cname active @ '' transformed into ''
                                           @ the (mv_type m) @ '' type!'')]\<rparr>, rs))
      else if (ab = ''receiver'' \<or> ab = ''power_of_alchemy'') \<and> h = OnSwitchIn
      then Some (Inr (copyFaintedAbility st p ab, rs))
      else None)"

definition runAbilityHooks ::
    "hook \<Rightarrow> (string \<times> move) list \<Rightarrow> state \<Rightarrow> string \<Rightarrow> action option \<Rightarrow> rngst
      \<Rightarrow> js_error + (state \<times> event list \<times> rngst)" where
  "runAbilityHooks h mvs st playerId act rs =
     (case findPlayer st playerId of
        None \<Rightarrow> Inr (st, [], rs)
      | Some p \<Rightarrow>
          (case getActiveCreature st playerId of
             None \<Rightarrow> Inr (st, [], rs)
           | Some active \<Rightarrow>
               (case abilityHook h mvs st p active act rs of
                  None \<Rightarrow> Inr (st, [], rs)
                | Some (Inl x) \<Rightarrow> Inl x
                | Some (Inr (res, rs1)) \<Rightarrow>
                    Inr (case r_state res of None \<Rightarrow> st | Some st1 \<Rightarrow> st1, r_events res, rs1))))"

fun abilityLoop ::
    "hook \<Rightarrow> (string \<times> move) list \<Rightarrow> string list \<Rightarrow> event list \<Rightarrow> state \<Rightarrow> rngst
      \<Rightarrow> js_error + (state \<times> event list \<times> rngst)" where
  "abilityLoop h mvs [] acc workingState rs = Inr (workingState, acc, rs)"
| "abilityLoop h mvs (i # is) acc workingState rs =
     (case runAbilityHooks h mvs workingState i None rs of
        Inl x \<Rightarrow> Inl x
      | Inr (st1, evs, rs1) \<Rightarrow> abilityLoop h mvs is (acc @ evs) st1 rs1)"

definition runAllAbilityHooks ::
    "hook \<Rightarrow> (string \<times> move) list \<Rightarrow> state \<Rightarrow> rngst \<Rightarrow> js_error + (state \<times> event list \<times> rngst)" where
  "runAllAbilityHooks h mvs st rs = abilityLoop h mvs (map pid (players st)) [] st rs"

text \<open>
  \<open>onTryHit\<close> (the target's ability may replace an event) and \<open>onAfterEvent\<close> (every active
  creature's ability may add events). \<open>None\<close> is the handler's \<open>null\<close>.
\<close>

definition onTryHit :: "(string \<times> move) list \<Rightarrow> string \<Rightarrow> (string \<Rightarrow> creature \<Rightarrow> event \<Rightarrow> event list option) option" where
  "onTryHit mvs ab =
     (if ab = ''magic_bounce''
      then Some (\<lambda>i a ev.
             if isReflectableStatusEvent (evType ev) \<and> truthy (m_source (evMeta ev))
                \<and> m_source (evMeta ev) \<noteq> evTargetId ev \<and> \<not> m_bounced (evMeta ev)
                \<and> isStatusMove (moveOf mvs (m_moveId (evMeta ev)))
             then Some [plainLog (cname a @ '' bounced the move back!''),
                        retarget (the (m_source (evMeta ev)))
                          ((evMeta ev)\<lparr>m_source := evTargetId ev, m_bounced := True\<rparr>) ev]
             else None)
      else if ab = ''lightning_rod''
      then Some (\<lambda>i a ev.
             if evType ev = ''damage'' \<and> moveTypeIs (moveOf mvs (m_moveId (evMeta ev))) ''electric''
             then Some [stageEvent i [(''spa'', 1)] (selfMeta i),
                        plainLog (cname a @ '' drew in the electricity!'')]
             else None)
      else None)"

definition damageAmount :: "event \<Rightarrow> int" where
  "damageAmount ev = (case ev of Damage t n m \<Rightarrow> n | _ \<Rightarrow> 0)"

definition eventStages :: "event \<Rightarrow> (string \<times> int) list" where
  "eventStages ev = (case ev of ModifyStage t s c f w m \<Rightarrow> s | _ \<Rightarrow> [])"

definition onlyPositiveStages :: "(string \<times> int) list \<Rightarrow> (string \<times> int) list" where
  "onlyPositiveStages s = filter (\<lambda>kv. snd kv > 0) s"

definition onAfterEvent :: "state \<Rightarrow> string \<Rightarrow> (string \<Rightarrow> creature \<Rightarrow> event \<Rightarrow> event list option) option" where
  "onAfterEvent st ab =
     (if ab = ''stamina''
      then Some (\<lambda>i a ev.
             if evType ev = ''damage'' \<and> evTargetId ev = Some i
             then Some [stageEvent i [(''def'', 1)] (selfMeta i)] else None)
      else if ab = ''cotton_down''
      then Some (\<lambda>i a ev.
             if evType ev = ''damage'' \<and> evTargetId ev = Some i
             then Some (map (\<lambda>other. stageEvent (pid other) [(''spe'', - 1)] (selfMeta i))
                          (filter (\<lambda>other. pid other \<noteq> i) (players st)))
             else None)
      else if ab = ''berserk''
      then Some (\<lambda>i a ev.
             if evType ev = ''damage'' \<and> evTargetId ev = Some i
                \<and> (of_int (hp a) :: rat) > of_int (maxHp a) / 2
                \<and> (of_int (hp a - damageAmount ev) :: rat) \<le> of_int (maxHp a) / 2
             then Some [stageEvent i [(''spa'', 1)] (selfMeta i)] else None)
      else if ab = ''competitive''
      then Some (\<lambda>i a ev.
             if evType ev = ''modify_stage'' \<and> evTargetId ev = Some i
                \<and> truthy (m_source (evMeta ev)) \<and> m_source (evMeta ev) \<noteq> Some i
                \<and> \<not> m_competitive (evMeta ev) \<and> list_ex (\<lambda>kv. snd kv < 0) (eventStages ev)
             then Some [stageEvent i [(''spa'', 2)] ((selfMeta i)\<lparr>m_competitive := True\<rparr>)]
             else None)
      else if ab = ''opportunist''
      then Some (\<lambda>i a ev.
             if evType ev = ''modify_stage'' \<and> evTargetId ev \<noteq> Some i
                \<and> \<not> m_opportunist (evMeta ev) \<and> onlyPositiveStages (eventStages ev) \<noteq> []
             then Some [stageEvent i (onlyPositiveStages (eventStages ev))
                          ((selfMeta i)\<lparr>m_opportunist := True\<rparr>)]
             else None)
      else None)"

definition reactions :: "state \<Rightarrow> event \<Rightarrow> event list" where
  "reactions st ev =
     concat (map (\<lambda>p. case getActiveCreature st (pid p) of
                         None \<Rightarrow> []
                       | Some active \<Rightarrow>
                           (case onAfterEvent st (ability active) of
                              None \<Rightarrow> []
                            | Some handler \<Rightarrow>
                                (case handler (pid p) active ev of None \<Rightarrow> [] | Some out \<Rightarrow> out)))
                 (players st))"

definition intercept :: "(string \<times> move) list \<Rightarrow> state \<Rightarrow> event \<Rightarrow> event list" where
  "intercept mvs st ev =
     (case evTargetId ev of
        None \<Rightarrow> [ev]
      | Some t \<Rightarrow>
          if t = [] then [ev]
          else (case getActiveCreature st t of
                  None \<Rightarrow> [ev]
                | Some targetCreature \<Rightarrow>
                    (case onTryHit mvs (ability targetCreature) of
                       None \<Rightarrow> [ev]
                     | Some handler \<Rightarrow>
                         (case handler t targetCreature ev of
                            None \<Rightarrow> [ev]
                          | Some replacement \<Rightarrow> replacement))))"

definition applyAbilityEventModifiers :: "(string \<times> move) list \<Rightarrow> state \<Rightarrow> event list \<Rightarrow> event list" where
  "applyAbilityEventModifiers mvs st evs =
     concat (map (\<lambda>ev. concat (map (\<lambda>processedEv. processedEv # reactions st processedEv)
                                   (intercept mvs st ev))) evs)"

section \<open>The turn resolver (core/battle.js)\<close>

subsection \<open>Event transforms\<close>

fun transformLoop :: "state \<Rightarrow> event list \<Rightarrow> string list \<Rightarrow> transform list \<Rightarrow> rngst
      \<Rightarrow> js_error + (transform list \<times> rngst)" where
  "transformLoop st evs [] acc rs = Inr (acc, rs)"
| "transformLoop st evs (i # is) acc rs =
     (case runStatusHooks OnEventTransform st i None None evs rs of
        Inl x \<Rightarrow> Inl x
      | Inr (res, st1, rs1) \<Rightarrow> transformLoop st evs is (acc @ r_transforms res) rs1)"

definition collectEventTransforms :: "state \<Rightarrow> event list \<Rightarrow> rngst \<Rightarrow> js_error + (transform list \<times> rngst)" where
  "collectEventTransforms st evs rs =
     (case transformLoop st evs (map pid (players st)) [] rs of
        Inl x \<Rightarrow> Inl x
      | Inr (transforms, rs1) \<Rightarrow>
          (case runFieldHooks OnEventTransform st evs rs1 of
             Inl x \<Rightarrow> Inl x
           | Inr (fieldEvents, rs2) \<Rightarrow>
               Inr (sort_key (\<lambda>t. - (case tr_priority t of None \<Rightarrow> 0 | Some n \<Rightarrow> n)) transforms,
                    rs2)))"

definition targetMatches :: "transform \<Rightarrow> event \<Rightarrow> bool" where
  "targetMatches t ev = (\<not> truthy (tr_targetId t) \<or> tr_targetId t = evTargetId ev)"

definition cancels :: "transform \<Rightarrow> event \<Rightarrow> bool" where
  "cancels t ev =
     (tr_type t = ''cancel_event''
      \<and> (tr_target t = Some (evType ev) \<or> tr_targetType t = Some (evType ev)
         \<or> tr_from t = Some (evType ev))
      \<and> targetMatches t ev)"

definition replaces :: "transform \<Rightarrow> event \<Rightarrow> bool" where
  "replaces t ev =
     (tr_type t = ''replace_event''
      \<and> (tr_from t = Some (evType ev) \<or> tr_targetType t = Some (evType ev))
      \<and> targetMatches t ev)"

definition applyEventTransforms :: "event list \<Rightarrow> transform list \<Rightarrow> event list" where
  "applyEventTransforms evs transforms =
     (if transforms = [] then evs
      else concat (map (\<lambda>ev. if list_ex (\<lambda>t. cancels t ev) transforms then []
                              else case find (\<lambda>t. replaces t ev) transforms of
                                     Some r \<Rightarrow> (case tr_to r of None \<Rightarrow> [] | Some out \<Rightarrow> out)
                                   | None \<Rightarrow> [ev]) evs))"

subsection \<open>Power points\<close>

text \<open>
  \<open>movePp\<close> maps a move id to the points left, \<open>null\<close> (here \<open>None\<close>) for a move without limit.
  \<open>ensureMovePp\<close> enters a move on first sight, also when it is called from \<open>hasMovePp\<close>.
\<close>

definition ensureMovePp :: "string \<Rightarrow> move \<Rightarrow> creature \<Rightarrow> creature" where
  "ensureMovePp i moveDef c =
     (case map_of (movePp c) i of
        Some v \<Rightarrow> c
      | None \<Rightarrow> c\<lparr>movePp := movePp c @ [(i, pp moveDef)]\<rparr>)"

definition remainingPp :: "creature \<Rightarrow> string \<Rightarrow> int option" where
  "remainingPp c i = (case map_of (movePp c) i of None \<Rightarrow> None | Some v \<Rightarrow> v)"

definition hasMovePp :: "creature \<Rightarrow> string \<Rightarrow> move \<Rightarrow> bool \<times> creature" where
  "hasMovePp c i moveDef =
     (let c1 = ensureMovePp i moveDef c
      in (case remainingPp c1 i of None \<Rightarrow> True | Some n \<Rightarrow> n > 0, c1))"

definition consumeMovePp :: "creature \<Rightarrow> string \<Rightarrow> move \<Rightarrow> bool \<times> creature" where
  "consumeMovePp c i moveDef =
     (let c1 = ensureMovePp i moveDef c
      in case remainingPp c1 i of
           None \<Rightarrow> (True, c1)
         | Some n \<Rightarrow> if n \<le> 0 then (False, c1)
                     else (True, c1\<lparr>movePp := AList.update i (Some (n - 1)) (movePp c1)\<rparr>))"

text \<open>The filter of \<open>chooseRandomMove\<close>, which enters every candidate it tests.\<close>

fun filterPp :: "(string \<times> move) list \<Rightarrow> string list \<Rightarrow> creature \<Rightarrow> string list \<times> creature" where
  "filterPp mvs [] c = ([], c)"
| "filterPp mvs (i # is) c =
     (case map_of mvs i of
        None \<Rightarrow> filterPp mvs is c
      | Some d \<Rightarrow>
          (let (ok, c1) = hasMovePp c i d;
               (rest, c2) = filterPp mvs is c1
           in (if ok then i # rest else rest, c2)))"

definition chooseRandomMove ::
    "(string \<times> move) list \<Rightarrow> state \<Rightarrow> string \<Rightarrow> rngst \<Rightarrow> string \<Rightarrow> string option \<times> state \<times> rngst" where
  "chooseRandomMove mvs st pool rs attackerId =
     (let allMoveIds = map fst mvs;
          active = (if attackerId \<noteq> [] then getActiveCreature st attackerId else None);
          byCategory = (\<lambda>cat. filter (\<lambda>i. case map_of mvs i of None \<Rightarrow> False
                                           | Some d \<Rightarrow> category d = Some cat) allMoveIds);
          candidates =
            (if pool = ''self_moves''
             then (case active of
                     None \<Rightarrow> allMoveIds
                   | Some a \<Rightarrow> if moves a \<noteq> [] then moves a else allMoveIds)
             else if pool = ''physical'' then byCategory ''physical''
             else if pool = ''special'' then byCategory ''special''
             else if pool = ''status'' then byCategory ''status''
             else allMoveIds);
          (filtered, st1) =
            (case active of
               None \<Rightarrow> (filter (\<lambda>i. map_of mvs i \<noteq> None) candidates, st)
             | Some a \<Rightarrow> (fst (filterPp mvs candidates a),
                          updActive attackerId (\<lambda>c. snd (filterPp mvs candidates a)) st))
      in if filtered = [] then (None, st1, rs)
         else let (r, rs1) = rngRecorder rs;
                  idx = \<lfloor>r * of_nat (length filtered)\<rfloor>
              in (if 0 \<le> idx \<and> idx < int (length filtered) then Some (filtered ! nat idx) else None,
                  st1, rs1))"

subsection \<open>The order of the actions\<close>

text \<open>
  An action with the three keys the resolver attaches to it. Only an action of type
  \<open>switch\<close> gets the fixed priority 10000; every other action, whatever its type, gets the
  priority of \<open>getActionPriority\<close> (its own \<open>priority\<close> field, else the priority of the move
  it names, else 0, through \<open>onModifyPriority\<close>) and the speed of its player's creature.
  One number is drawn per action, in the order of submission.
\<close>

record kaction =
  k_action :: action
  k_priority :: int
  k_speed :: rat
  k_rand :: rat

definition creatureSpeed :: "state \<Rightarrow> string \<Rightarrow> rat" where
  "creatureSpeed st playerId = computeSpeed st playerId (turn st)"

definition getActionPriority :: "state \<Rightarrow> action \<Rightarrow> move option \<Rightarrow> int" where
  "getActionPriority st a mv =
     runAbilityValueHook st (a_playerId a) (onModifyPriority mv)
       (case a_priority a of
          Some n \<Rightarrow> n
        | None \<Rightarrow> (case (case mv of None \<Rightarrow> None | Some m \<Rightarrow> mv_priority m) of
                     Some n \<Rightarrow> n
                   | None \<Rightarrow> 0))"

definition keyAction :: "(string \<times> move) list \<Rightarrow> state \<Rightarrow> action \<Rightarrow> rngst \<Rightarrow> kaction \<times> rngst" where
  "keyAction mvs st a rs =
     (if a_type a = Some TSwitch
      then (let (r, rs1) = rngRecorder rs
            in (\<lparr>k_action = a, k_priority = 10000, k_speed = 0, k_rand = r\<rparr>, rs1))
      else (let mv = moveOf mvs (a_moveId a);
                priority = getActionPriority st a mv;
                spd = creatureSpeed st (a_playerId a);
                (r, rs1) = rngRecorder rs
            in (\<lparr>k_action = a, k_priority = priority, k_speed = spd, k_rand = r\<rparr>, rs1)))"

fun keyActions :: "(string \<times> move) list \<Rightarrow> state \<Rightarrow> action list \<Rightarrow> rngst \<Rightarrow> kaction list \<times> rngst" where
  "keyActions mvs st [] rs = ([], rs)"
| "keyActions mvs st (a # as) rs =
     (let (k, rs1) = keyAction mvs st a rs;
          (ks, rs2) = keyActions mvs st as rs1
      in (k # ks, rs2))"

text \<open>
  The comparator of the source. \<open>Array.prototype.sort\<close> is stable and the comparator is
  a total preorder on numbers, so the result is the stable sort by it: insertion sort.
\<close>

definition compareActions :: "kaction \<Rightarrow> kaction \<Rightarrow> rat" where
  "compareActions a b =
     (if k_priority b \<noteq> k_priority a then of_int (k_priority b - k_priority a)
      else if k_speed b \<noteq> k_speed a then k_speed b - k_speed a
      else k_rand a - k_rand b)"

fun insertAction :: "kaction \<Rightarrow> kaction list \<Rightarrow> kaction list" where
  "insertAction x [] = [x]"
| "insertAction x (y # ys) =
     (if compareActions x y \<le> 0 then x # y # ys else y # insertAction x ys)"

definition sortActions :: "kaction list \<Rightarrow> kaction list" where
  "sortActions xs = foldr insertAction xs []"

definition orderActions :: "(string \<times> move) list \<Rightarrow> state \<Rightarrow> action list \<Rightarrow> rngst \<Rightarrow> kaction list \<times> rngst" where
  "orderActions mvs st acts rs =
     (let (ks, rs1) = keyActions mvs st acts rs in (sortActions ks, rs1))"

subsection \<open>One action\<close>

text \<open>The context the resolver builds for an effect of a move.\<close>

definition mkCtx :: "state \<Rightarrow> string \<Rightarrow> string \<Rightarrow> move option \<Rightarrow> ctx" where
  "mkCtx st a t m = \<lparr>c_attacker = getActiveCreature st a, c_target = getActiveCreature st t,
     c_move = m, attackerPlayerId = a, targetPlayerId = t, c_turn = Some (turn st)\<rparr>"

definition logged :: "string \<Rightarrow> state \<Rightarrow> state" where
  "logged m st = (if m \<noteq> [] then pushLog m st else st)"

definition thenApply :: "js_error + (state \<times> event list \<times> rngst) \<Rightarrow> js_error + (state \<times> rngst)" where
  "thenApply r =
     (case r of
        Inl x \<Rightarrow> Inl x
      | Inr (st, evs, rs) \<Rightarrow>
          (case applyEvents st evs of Inl x \<Rightarrow> Inl x | Inr st1 \<Rightarrow> Inr (st1, rs)))"

definition trapped :: "state \<Rightarrow> string \<Rightarrow> bool" where
  "trapped st playerId =
     list_ex (\<lambda>p. pid p \<noteq> playerId \<and> runAbilityCheckHook st (pid p) (onTrap st playerId) False)
       (players st)"

definition switchAction :: "(string \<times> move) list \<Rightarrow> action \<Rightarrow> state \<Rightarrow> rngst \<Rightarrow> js_error + (state \<times> rngst)" where
  "switchAction mvs act st rs =
     (if (case getActiveCreature st (a_playerId act) of
            None \<Rightarrow> False
          | Some active \<Rightarrow> hp active > 0 \<and> ''ghost'' \<notin> set (types active)
                           \<and> trapped st (a_playerId act))
      then (case findPlayer st (a_playerId act) of
              None \<Rightarrow> Inl TypeError
            | Some attacker \<Rightarrow>
                Inr (logged (pname attacker @ '' couldn'' @ [CHR 0x27] @ ''t switch out!'') st, rs))
      else (case applyEvent st (Switch (a_playerId act) (a_slot act)) of
              Inl x \<Rightarrow> Inl x
            | Inr st1 \<Rightarrow> thenApply (runAbilityHooks OnSwitchIn mvs st1 (a_playerId act) None rs)))"

definition itemAction :: "action \<Rightarrow> state \<Rightarrow> rngst \<Rightarrow> js_error + (state \<times> rngst)" where
  "itemAction act st rs =
     (case findPlayer st (a_playerId act) of
        None \<Rightarrow> Inl TypeError
      | Some attacker \<Rightarrow>
          if \<not> runAbilityCheckHook st (a_playerId act) onCheckItem True
          then Inr (logged (pname attacker @ '' cannot use items!'') st, rs)
          else if \<not> hasItem (getActiveCreature st (a_playerId act))
          then Inr (logged (pname attacker @ '' has no item to use.'') st, rs)
          else (let i = (case getActiveCreature st (a_playerId act) of
                           None \<Rightarrow> None | Some active \<Rightarrow> getItemId active);
                    used = (\<lambda>c. if (case i of None \<Rightarrow> False | Some x \<Rightarrow> x \<noteq> [] \<and> includesBerry x)
                                then (clearItemStatus c)\<lparr>statuses := statuses (clearItemStatus c)
                                        @ [mkStatus ''berry_consumed'' None no_data]\<rparr>
                                else clearItemStatus c)
                in Inr (logged (pname attacker @ '' used its ''
                                  @ (case i of None \<Rightarrow> ''item'' | Some x \<Rightarrow> x) @ ''!'')
                          (updActive (a_playerId act) used st), rs)))"

text \<open>The sub-effects of a move chosen by \<open>random_move\<close>, each with a fresh context.\<close>

fun subEffects :: "string \<Rightarrow> string \<Rightarrow> move \<Rightarrow> effect list \<Rightarrow> state \<Rightarrow> rngst \<Rightarrow> compiled" where
  "subEffects a t mv [] st rs = Inr ([], st, rs)"
| "subEffects a t mv (e # es) st rs =
     (case applyEffect (mkCtx st a t (Some mv)) e st rs of
        Inl x \<Rightarrow> Inl x
      | Inr (ev1, st1, rs1) \<Rightarrow>
          (case subEffects a t mv es st1 rs1 of
             Inl x \<Rightarrow> Inl x
           | Inr (ev2, st2, rs2) \<Rightarrow> Inr (ev1 @ ev2, st2, rs2)))"

definition isRandomMove :: "event \<Rightarrow> string option" where
  "isRandomMove ev = (case ev of RandomMove pool m \<Rightarrow> Some pool | _ \<Rightarrow> None)"

fun expandEvents ::
    "(string \<times> move) list \<Rightarrow> string \<Rightarrow> string \<Rightarrow> string \<Rightarrow> event list \<Rightarrow> state \<Rightarrow> rngst \<Rightarrow> compiled" where
  "expandEvents mvs a t nm [] st rs = Inr ([], st, rs)"
| "expandEvents mvs a t nm (ev # evs) st rs =
     (case (case isRandomMove ev of
              None \<Rightarrow> Inr ([ev], st, rs)
            | Some pool \<Rightarrow>
                (let (chosenMoveId, st1, rs1) = chooseRandomMove mvs st pool rs a
                 in if \<not> truthy chosenMoveId
                    then Inr ([plainLog (nm @ '' tried to use a random move but failed!'')], st1, rs1)
                    else case moveOf mvs chosenMoveId of
                           None \<Rightarrow> Inr ([], st1, rs1)
                         | Some chosenMove \<Rightarrow>
                             (case getActiveCreature st1 a of
                                None \<Rightarrow>
                                  (case subEffects a t chosenMove (effects chosenMove) st1 rs1 of
                                     Inl x \<Rightarrow> Inl x
                                   | Inr (sub, st3, rs3) \<Rightarrow>
                                       Inr (plainLog (nm @ '' used '' @ mv_name chosenMove
                                                        @ ''! (random)'') # sub, st3, rs3))
                              | Some attackerCurrent \<Rightarrow>
                                  (let (ok, c1) = consumeMovePp attackerCurrent (the chosenMoveId)
                                                    chosenMove;
                                       st2 = updActive a (\<lambda>c. c1) st1
                                   in if \<not> ok
                                      then Inr ([plainLog (nm @ '' has no PP left for ''
                                                   @ mv_name chosenMove @ ''!'')], st2, rs1)
                                      else case subEffects a t chosenMove (effects chosenMove)
                                                  st2 rs1 of
                                             Inl x \<Rightarrow> Inl x
                                           | Inr (sub, st3, rs3) \<Rightarrow>
                                               Inr (plainLog (nm @ '' used '' @ mv_name chosenMove
                                                                @ ''! (random)'') # sub,
                                                    st3, rs3))))) of
        Inl x \<Rightarrow> Inl x
      | Inr (out1, st4, rs4) \<Rightarrow>
          (case expandEvents mvs a t nm evs st4 rs4 of
             Inl x \<Rightarrow> Inl x
           | Inr (out2, st5, rs5) \<Rightarrow> Inr (out1 @ out2, st5, rs5)))"

text \<open>One effect of the move: compile, let abilities and statuses rewrite, expand, apply.\<close>

definition runEffect ::
    "(string \<times> move) list \<Rightarrow> string \<Rightarrow> string \<Rightarrow> move \<Rightarrow> string \<Rightarrow> effect \<Rightarrow> state \<Rightarrow> rngst
      \<Rightarrow> js_error + (state \<times> rngst)" where
  "runEffect mvs a t mv nm e st rs =
     (case applyEffect (mkCtx st a t (Some mv)) e st rs of
        Inl x \<Rightarrow> Inl x
      | Inr (effectEvents, st1, rs1) \<Rightarrow>
          (let abilityEvents = applyAbilityEventModifiers mvs st1 effectEvents
           in case collectEventTransforms st1 abilityEvents rs1 of
                Inl x \<Rightarrow> Inl x
              | Inr (transforms, rs2) \<Rightarrow>
                  (case expandEvents mvs a t nm (applyEventTransforms abilityEvents transforms)
                          st1 rs2 of
                     Inl x \<Rightarrow> Inl x
                   | Inr (expandedEvents, st2, rs3) \<Rightarrow>
                       (case collectEventTransforms st2 expandedEvents rs3 of
                          Inl x \<Rightarrow> Inl x
                        | Inr (finalTransforms, rs4) \<Rightarrow>
                            (case applyEvents st2
                                    (applyEventTransforms expandedEvents finalTransforms) of
                               Inl x \<Rightarrow> Inl x
                             | Inr st3 \<Rightarrow> Inr (st3, rs4))))))"

fun runEffects ::
    "(string \<times> move) list \<Rightarrow> string \<Rightarrow> string \<Rightarrow> move \<Rightarrow> string \<Rightarrow> effect list \<Rightarrow> state \<Rightarrow> rngst
      \<Rightarrow> js_error + (state \<times> rngst)" where
  "runEffects mvs a t mv nm [] st rs = Inr (st, rs)"
| "runEffects mvs a t mv nm (e # es) st rs =
     (case runEffect mvs a t mv nm e st rs of
        Inl x \<Rightarrow> Inl x
      | Inr (st1, rs1) \<Rightarrow> runEffects mvs a t mv nm es st1 rs1)"

text \<open>
  A move action. The result tells whether the body ran to its end (\<open>True\<close>) or left by
  \<open>continue\<close>; only in the first case does the resolver test whether the battle is over.
  A status may replace the move of the action, and the replaced action is the one that is
  recorded.
\<close>

definition isProtect :: "effect \<Rightarrow> bool" where
  "isProtect e = (case e of EProtect \<Rightarrow> True | _ \<Rightarrow> False)"

definition useMove ::
    "(string \<times> move) list \<Rightarrow> action \<Rightarrow> string \<Rightarrow> state \<Rightarrow> rngst \<Rightarrow> js_error + (bool \<times> state \<times> rngst)" where
  "useMove mvs act targetId st rs =
     (case getActiveCreature st (a_playerId act) of
        None \<Rightarrow> Inr (False, st, rs)
      | Some attackerFresh \<Rightarrow>
          if getActiveCreature st targetId = None then Inr (False, st, rs)
          else if hp attackerFresh \<le> 0 then Inr (False, st, rs)
          else (case moveOf mvs (a_moveId act) of
                  None \<Rightarrow> Inr (False, logged (''Unknown move '' @ showOpt (a_moveId act)) st, rs)
                | Some mv \<Rightarrow>
                    (let i = the (a_moveId act);
                         (ok, c1) = hasMovePp attackerFresh i mv
                     in if \<not> ok
                        then Inr (False,
                               logged (cname attackerFresh @ '' has no PP left for '' @ mv_name mv @ ''!'')
                                 (updActive (a_playerId act) (\<lambda>c. c1) st), rs)
                        else (let c2 = snd (consumeMovePp c1 i mv);
                                  c3 = c2\<lparr>volatileData := (volatileData c2)\<lparr>lastMove := a_moveId act\<rparr>\<rparr>
                              in case runEffects mvs (a_playerId act) targetId mv (cname attackerFresh)
                                        (effects mv) (updActive (a_playerId act) (\<lambda>c. c3) st) rs of
                                   Inl x \<Rightarrow> Inl x
                                 | Inr (st1, rs1) \<Rightarrow> Inr (True, st1, rs1)))))"

definition beforeAction ::
    "(string \<times> move) list \<Rightarrow> kaction \<Rightarrow> string \<Rightarrow> state \<Rightarrow> rngst
      \<Rightarrow> js_error + (kaction \<times> bool \<times> state \<times> rngst)" where
  "beforeAction mvs k targetId st rs =
     (let act = k_action k
      in case thenApply (runAbilityHooks OnBeforeAction mvs st (a_playerId act) (Some act) rs) of
           Inl x \<Rightarrow> Inl x
         | Inr (st1, rs1) \<Rightarrow>
             (case runStatusHooks OnBeforeAction st1 (a_playerId act) (Some act)
                     (moveOf mvs (a_moveId act)) [] rs1 of
                Inl x \<Rightarrow> Inl x
              | Inr (res, st2, rs2) \<Rightarrow>
                  (case applyEvents st2 (r_events res) of
                     Inl x \<Rightarrow> Inl x
                   | Inr st3 \<Rightarrow>
                       if r_prevent res then Inr (k, False, st3, rs2)
                       else (let act1 = (case r_override res of
                                           None \<Rightarrow> act
                                         | Some m \<Rightarrow> act\<lparr>a_moveId := Some m\<rparr>)
                             in case thenApply
                                       (case runFieldHooks OnBeforeAction st3 [] rs2 of
                                          Inl x \<Rightarrow> Inl x
                                        | Inr (evs, rs3) \<Rightarrow> Inr (st3, evs, rs3)) of
                                  Inl x \<Rightarrow> Inl x
                                | Inr (st4, rs4) \<Rightarrow>
                                    (case useMove mvs act1 targetId st4 rs4 of
                                       Inl x \<Rightarrow> Inl x
                                     | Inr (fin, st5, rs5) \<Rightarrow>
                                         Inr (k\<lparr>k_action := act1\<rparr>, fin, st5, rs5))))))"

definition moveAction ::
    "(string \<times> move) list \<Rightarrow> kaction \<Rightarrow> state \<Rightarrow> rngst \<Rightarrow> js_error + (kaction \<times> bool \<times> state \<times> rngst)" where
  "moveAction mvs k st0 rs =
     (let act = k_action k;
          st = (case moveOf mvs (a_moveId act) of
                  None \<Rightarrow> st0
                | Some actionMove \<Rightarrow>
                    if list_ex isProtect (effects actionMove) then st0
                    else updActive (a_playerId act)
                           (\<lambda>c. c\<lparr>volatileData := (volatileData c)\<lparr>protectSuccessCount := Some 0\<rparr>\<rparr>)
                           st0);
          cannotAct = Inr (k, False, logged (''Player '' @ a_playerId act @ '' cannot act.'') st, rs)
      in case getActiveCreature st (a_playerId act) of
           None \<Rightarrow> cannotAct
         | Some active \<Rightarrow>
             if hp active \<le> 0 then cannotAct
             else (case (case a_targetId act of
                           Some t \<Rightarrow> Some t
                         | None \<Rightarrow> map_option pid (find (\<lambda>p. pid p \<noteq> a_playerId act) (players st))) of
                     None \<Rightarrow> Inr (k, False, logged (''No valid target for '' @ a_playerId act @ ''.'') st, rs)
                   | Some targetId \<Rightarrow>
                       if findPlayer st targetId = None
                       then Inr (k, False,
                              logged (''No valid target for '' @ a_playerId act @ ''.'') st, rs)
                       else beforeAction mvs k targetId st rs))"

definition isBattleOver :: "state \<Rightarrow> bool" where
  "isBattleOver st = list_ex (\<lambda>p. \<not> list_ex (\<lambda>c. hp c > 0) (team p)) (players st)"

text \<open>
  The loop over the ordered actions. It returns the actions as they stand after the loop
  (a move may have been replaced), the state and the random source.
\<close>

fun actionLoop ::
    "(string \<times> move) list \<Rightarrow> kaction list \<Rightarrow> state \<Rightarrow> rngst
      \<Rightarrow> js_error + (kaction list \<times> state \<times> rngst)" where
  "actionLoop mvs [] st rs = Inr ([], st, rs)"
| "actionLoop mvs (k # ks) st rs =
     (if a_type (k_action k) = Some TSwitch
      then (case switchAction mvs (k_action k) st rs of
              Inl x \<Rightarrow> Inl x
            | Inr (st1, rs1) \<Rightarrow>
                (case actionLoop mvs ks st1 rs1 of
                   Inl x \<Rightarrow> Inl x
                 | Inr (out, st2, rs2) \<Rightarrow> Inr (k # out, st2, rs2)))
      else if a_type (k_action k) = Some TUseItem
      then (case itemAction (k_action k) st rs of
              Inl x \<Rightarrow> Inl x
            | Inr (st1, rs1) \<Rightarrow>
                (case actionLoop mvs ks st1 rs1 of
                   Inl x \<Rightarrow> Inl x
                 | Inr (out, st2, rs2) \<Rightarrow> Inr (k # out, st2, rs2)))
      else (case moveAction mvs k st rs of
              Inl x \<Rightarrow> Inl x
            | Inr (k1, fin, st1, rs1) \<Rightarrow>
                if fin \<and> isBattleOver st1 then Inr (k1 # ks, st1, rs1)
                else (case actionLoop mvs ks st1 rs1 of
                        Inl x \<Rightarrow> Inl x
                      | Inr (out, st2, rs2) \<Rightarrow> Inr (k1 # out, st2, rs2))))"

subsection \<open>One turn\<close>

fun statusPhase :: "hook \<Rightarrow> string list \<Rightarrow> state \<Rightarrow> rngst \<Rightarrow> js_error + (state \<times> rngst)" where
  "statusPhase h [] st rs = Inr (st, rs)"
| "statusPhase h (i # is) st rs =
     (case runStatusHooks h st i None None [] rs of
        Inl x \<Rightarrow> Inl x
      | Inr (res, st1, rs1) \<Rightarrow>
          (case applyEvents st1 (r_events res) of
             Inl x \<Rightarrow> Inl x
           | Inr st2 \<Rightarrow> statusPhase h is st2 rs1))"

definition fieldPhase :: "hook \<Rightarrow> state \<Rightarrow> rngst \<Rightarrow> js_error + (state \<times> rngst)" where
  "fieldPhase h st rs =
     thenApply (case runFieldHooks h st [] rs of
                  Inl x \<Rightarrow> Inl x
                | Inr (evs, rs1) \<Rightarrow> Inr (st, evs, rs1))"

definition turnStart :: "(string \<times> move) list \<Rightarrow> state \<Rightarrow> rngst \<Rightarrow> js_error + (state \<times> rngst)" where
  "turnStart mvs st rs =
     (case thenApply (runAllAbilityHooks OnTurnStart mvs st rs) of
        Inl x \<Rightarrow> Inl x
      | Inr (st1, rs1) \<Rightarrow>
          (case statusPhase OnTurnStart (map pid (players st1)) st1 rs1 of
             Inl x \<Rightarrow> Inl x
           | Inr (st2, rs2) \<Rightarrow> fieldPhase OnTurnStart st2 rs2))"

definition turnEnd :: "(string \<times> move) list \<Rightarrow> state \<Rightarrow> rngst \<Rightarrow> js_error + (state \<times> rngst)" where
  "turnEnd mvs st rs =
     (case statusPhase OnTurnEnd (map pid (players st)) st rs of
        Inl x \<Rightarrow> Inl x
      | Inr (st1, rs1) \<Rightarrow>
          (case thenApply (runAllAbilityHooks OnTurnEnd mvs st1 rs1) of
             Inl x \<Rightarrow> Inl x
           | Inr (st2, rs2) \<Rightarrow> fieldPhase OnTurnEnd st2 rs2))"

definition recordAction :: "kaction \<Rightarrow> action" where
  "recordAction k = (k_action k)\<lparr>a_priority := Some (k_priority k)\<rparr>"

definition recordTurn :: "nat \<Rightarrow> kaction list \<Rightarrow> rngst \<Rightarrow> state \<Rightarrow> state" where
  "recordTurn logStart ordered rs st =
     st\<lparr>history := Some ((case history st of None \<Rightarrow> [] | Some ts \<Rightarrow> ts)
          @ [\<lparr>t_turn = turn st, t_actions = map recordAction ordered,
               t_log = drop logStart (log_lines st), t_rng = drawn rs\<rparr>])\<rparr>"

text \<open>
  \<open>stepBattle\<close>. \<open>rng\<close> is the caller's random source; the recorder starts with an empty
  log. The result is the new state and the recorder after the turn.
\<close>

definition stepBattle ::
    "(string \<times> move) list \<Rightarrow> state \<Rightarrow> action list \<Rightarrow> (nat \<Rightarrow> rat) \<Rightarrow> bool
      \<Rightarrow> js_error + (state \<times> rngst)" where
  "stepBattle mvs state0 actions rng recordHistory =
     (let next0 = state0\<lparr>turn := turn state0 + 1\<rparr>;
          logStart = length (log_lines next0);
          next1 = logged (''--- Turn '' @ showInt (turn next0) @ '' ---'') next0
      in case turnStart mvs next1 \<lparr>future = rng, drawn = []\<rparr> of
           Inl x \<Rightarrow> Inl x
         | Inr (next2, rs2) \<Rightarrow>
             (let (ordered, rs3) = orderActions mvs next2 actions rs2
              in case actionLoop mvs ordered next2 rs3 of
                   Inl x \<Rightarrow> Inl x
                 | Inr (ordered1, next3, rs4) \<Rightarrow>
                     (case turnEnd mvs next3 rs4 of
                        Inl x \<Rightarrow> Inl x
                      | Inr (next4, rs5) \<Rightarrow>
                          (let next5 = tickFieldEffects (tickStatuses next4)
                           in Inr (if recordHistory then recordTurn logStart ordered1 rs5 next5
                                   else next5, rs5)))))"

subsection \<open>Several turns, and the replay (core/replay.js)\<close>

text \<open>
  A battle: \<open>stepBattle\<close> with recording, turn after turn, on one random source.
\<close>

fun runTurns :: "(string \<times> move) list \<Rightarrow> state \<Rightarrow> action list list \<Rightarrow> (nat \<Rightarrow> rat)
      \<Rightarrow> js_error + (state \<times> (nat \<Rightarrow> rat))" where
  "runTurns mvs st [] rng = Inr (st, rng)"
| "runTurns mvs st (acts # rest) rng =
     (case stepBattle mvs st acts rng True of
        Inl x \<Rightarrow> Inl x
      | Inr (st1, rs1) \<Rightarrow> runTurns mvs st1 rest (future rs1))"

text \<open>
  \<open>replayBattle\<close>: each recorded turn is stepped, without recording, on its recorded
  actions and on a source that hands out the recorded numbers and then falls back on
  \<open>Math.random\<close>, the sequence \<open>entropy\<close>.
\<close>

definition replayRng :: "rat list \<Rightarrow> (nat \<Rightarrow> rat) \<Rightarrow> nat \<Rightarrow> rat" where
  "replayRng xs entropy n = (if n < length xs then xs ! n else entropy (n - length xs))"

fun replayTurns :: "(string \<times> move) list \<Rightarrow> state \<Rightarrow> turn_record list \<Rightarrow> (nat \<Rightarrow> rat)
      \<Rightarrow> js_error + state" where
  "replayTurns mvs st [] entropy = Inr st"
| "replayTurns mvs st (t # ts) entropy =
     (case stepBattle mvs st (t_actions t) (replayRng (t_rng t) entropy) False of
        Inl x \<Rightarrow> Inl x
      | Inr (st1, rs1) \<Rightarrow>
          replayTurns mvs st1 ts
            (\<lambda>n. entropy (n + (length (drawn rs1) - length (t_rng t)))))"

definition replayBattle :: "(string \<times> move) list \<Rightarrow> state \<Rightarrow> turn_record list option \<Rightarrow> (nat \<Rightarrow> rat)
      \<Rightarrow> js_error + state" where
  "replayBattle mvs initialState hist entropy =
     replayTurns mvs initialState (case hist of None \<Rightarrow> [] | Some ts \<Rightarrow> ts) entropy"


section \<open>Example states\<close>

definition exState :: state where
  "exState = createBattleState
     [(''p1'', ''A'', [(makeCreature ''Caster'' [''tackle''])\<lparr>hp := 90\<rparr>, makeCreature ''Bench'' []]),
      (''p2'', ''B'', [makeCreature ''Target'' [''tackle'']])]"

text \<open>Hit points and maximum of a player's active creature after an applier call.\<close>

definition hpAfter :: "js_error + state \<Rightarrow> string \<Rightarrow> (int \<times> int) option" where
  "hpAfter r i = (case r of Inl e \<Rightarrow> None
      | Inr st \<Rightarrow> map_option (\<lambda>c. (hp c, maxHp c)) (getActiveCreature st i))"

definition testRng :: "rat list \<Rightarrow> rngst" where
  "testRng xs = \<lparr>future = makeRng xs 0, drawn = []\<rparr>"

lemmas state_defs = createBattleState_def makeCreature_def getActiveCreature_def
  findPlayer_def teamAt_def updActive_def updPlayer_def updTeamAt_def pushLog_def Let_def



text \<open>The field's weather entries, for the ids the specification calls weather.\<close>

definition weatherEntries :: "state \<Rightarrow> string list" where
  "weatherEntries st =
     filter (\<lambda>i. i \<in> set [''sun'', ''rain'', ''hail'', ''sandstorm'']) (map sid (global st))"

text \<open>The species of the data guide, and an empty option object.\<close>

definition pikachu :: species where
  "pikachu = \<lparr>sp_id = ''pikachu'', sp_name = ''Pikachu'', sp_types = Some [''electric''],
     sp_type = None,
     sp_baseStats = \<lparr>bs_hp = 35, bs_atk = 55, bs_def = 40, bs_spa = 50, bs_spd = 50, bs_spe = 90\<rparr>,
     sp_abilities = Some [''static'', ''lightning_rod'']\<rparr>"

definition noOptions :: options where
  "noOptions = \<lparr>o_moves = None, o_ability = None, o_name = None, o_level = None, o_item = None,
     o_evs = None\<rparr>"





text \<open>Actions, and states for the examples of the resolver.\<close>

definition switchTo :: "string \<Rightarrow> int \<Rightarrow> action" where
  "switchTo i n = \<lparr>a_type = Some TSwitch, a_playerId = i, a_moveId = None, a_targetId = None,
     a_slot = Some n, a_priority = None\<rparr>"




definition benchState :: state where
  "benchState = createBattleState
     [(''p1'', ''A'', [makeCreature ''A1'' [], makeCreature ''A2'' []]),
      (''p2'', ''B'', [makeCreature ''B1'' [], makeCreature ''B2'' []])]"



text \<open>A \<open>Math.random\<close> that is never asked in the examples.\<close>

definition noEntropy :: "nat \<Rightarrow> rat" where
  "noEntropy n = 0"


section \<open>Notions used to state the properties of the compiler\<close>















section \<open>Notions used to state the properties of the resolver\<close>



text \<open>The log, the history and the players after a run, \<open>None\<close> after an exception.\<close>

definition finalLog :: "js_error + (state \<times> 'a) \<Rightarrow> string list option" where
  "finalLog r = (case r of Inl x \<Rightarrow> None | Inr p \<Rightarrow> Some (log_lines (fst p)))"

definition recorded :: "js_error + (state \<times> 'a) \<Rightarrow> turn_record list option" where
  "recorded r = (case r of Inl x \<Rightarrow> None | Inr p \<Rightarrow> history (fst p))"

definition replayLog :: "js_error + state \<Rightarrow> string list option" where
  "replayLog r = (case r of Inl x \<Rightarrow> None | Inr st \<Rightarrow> Some (log_lines st))"

definition replayHistory :: "js_error + state \<Rightarrow> turn_record list option option" where
  "replayHistory r = (case r of Inl x \<Rightarrow> None | Inr st \<Rightarrow> Some (history st))"


section \<open>Lookup and update lemmas\<close>

lemma find_updFirst:
  "(\<And>x. P x \<Longrightarrow> P (f x)) \<Longrightarrow> find P (updFirst P f xs) = map_option f (find P xs)"
  by (induction xs) auto

lemma findPlayer_updPlayer:
  "(\<And>p. pid (f p) = pid p) \<Longrightarrow> findPlayer (updPlayer i f st) i = map_option f (findPlayer st i)"
  by (simp add: findPlayer_def updPlayer_def find_updFirst)

lemma findPlayer_pushLog [simp]: "findPlayer (pushLog m st) i = findPlayer st i"
  by (simp add: findPlayer_def pushLog_def)

lemma getActiveCreature_pushLog [simp]:
  "getActiveCreature (pushLog m st) i = getActiveCreature st i"
  by (simp add: getActiveCreature_def)

lemma teamAt_updTeamAt: "teamAt (updTeamAt i f t) i = map_option f (teamAt t i)"
  by (auto simp add: teamAt_def updTeamAt_def nat_less_iff)

lemma teamAt_updTeamAt_other: "j \<noteq> i \<Longrightarrow> teamAt (updTeamAt i f t) j = teamAt t j"
  by (auto simp add: teamAt_def updTeamAt_def nat_eq_iff)

lemma length_updTeamAt [simp]: "length (updTeamAt i f t) = length t"
  by (simp add: updTeamAt_def)

lemma findPlayer_updActive:
  "findPlayer (updActive i f st) i =
     map_option (\<lambda>p. p\<lparr>team := updTeamAt (activeSlot p) f (team p)\<rparr>) (findPlayer st i)"
  by (simp add: updActive_def findPlayer_updPlayer)

lemma getActiveCreature_updActive:
  "getActiveCreature (updActive i f st) i = map_option f (getActiveCreature st i)"
  by (simp add: getActiveCreature_def findPlayer_updActive teamAt_updTeamAt split: option.splits)

lemma getActiveCreature_updPlayer_lfa:
  "getActiveCreature (updPlayer i (\<lambda>p. p\<lparr>lastFaintedAbility := a\<rparr>) st) i
     = getActiveCreature st i"
  by (simp add: getActiveCreature_def findPlayer_updPlayer split: option.splits)

lemma log_lines_updActive [simp]: "log_lines (updActive i f st) = log_lines st"
  by (simp add: updActive_def updPlayer_def)

lemma log_lines_updPlayer [simp]: "log_lines (updPlayer i f st) = log_lines st"
  by (simp add: updPlayer_def)

lemma global_upd [simp]:
  "global (updActive i f st) = global st" "global (updPlayer i g st) = global st"
  "global (pushLog m st) = global st"
  by (simp_all add: updActive_def updPlayer_def pushLog_def)

lemma turn_upd [simp]:
  "turn (updActive i f st) = turn st" "turn (updPlayer i g st) = turn st"
  "turn (pushLog m st) = turn st"
  by (simp_all add: updActive_def updPlayer_def pushLog_def)

lemma log_lines_pushLog [simp]: "log_lines (pushLog m st) = log_lines st @ [m]"
  by (simp add: pushLog_def)

lemma hasStatus_pushPendingSwitch [simp]: "hasStatus ''pending_switch'' (pushPendingSwitch c)"
  by (simp add: pushPendingSwitch_def hasStatus_def pendingSwitch_def mkStatus_def)

lemma hp_pushPendingSwitch [simp]:
  "hp (pushPendingSwitch c) = hp c" "maxHp (pushPendingSwitch c) = maxHp c"
  by (simp_all add: pushPendingSwitch_def)

section \<open>The damage event\<close>

text \<open>
  C2 (as the code has it). For a \<open>damage\<close> event on a player with an active creature the
  applier succeeds and the creature's hp becomes \<open>max 0 (hp - amount)\<close>, for every amount,
  negative ones included: a negative amount heals and nothing clamps the result at
  \<open>maxHp\<close>. So \<open>0 \<le> hp\<close> holds afterwards, and \<open>hp \<le> maxHp\<close> is kept when the amount is not
  negative. When the new hp is 0, the creature carries a \<open>pending_switch\<close> status afterwards
  (pushed unless it had one already) and the owner's \<open>lastFaintedAbility\<close> is the creature's
  ability.
\<close>

theorem damage_event:
  assumes "getActiveCreature st t = Some c"
  shows "\<exists>st' c'. applyEvent st (Damage t amount m) = Inr st'
          \<and> getActiveCreature st' t = Some c'
          \<and> hp c' = max 0 (hp c - amount) \<and> maxHp c' = maxHp c
          \<and> 0 \<le> hp c'
          \<and> (0 \<le> amount \<and> 0 \<le> hp c \<and> hp c \<le> maxHp c \<longrightarrow> hp c' \<le> maxHp c')
          \<and> (hp c' = 0 \<longrightarrow> hasStatus ''pending_switch'' c'
                \<and> map_option lastFaintedAbility (findPlayer st' t) = Some (Some (ability c)))"
proof -
  obtain p where p: "findPlayer st t = Some p"
    using assms by (auto simp: getActiveCreature_def split: option.splits)
  show ?thesis
  proof (cases "max 0 (hp c - amount) = 0")
    case True
    then show ?thesis using assms p
      by (simp add: Let_def getActiveCreature_updActive getActiveCreature_updPlayer_lfa
          findPlayer_updActive findPlayer_updPlayer)
  next
    case False
    then show ?thesis using assms p
      by (auto simp add: Let_def getActiveCreature_updActive)
  qed
qed

theorem damage_event_witness:
  "getActiveCreature exState ''p1'' = Some ((makeCreature ''Caster'' [''tackle''])\<lparr>hp := 90\<rparr>)
   \<and> hpAfter (applyEvent exState (Damage ''p1'' 90 no_meta)) ''p1'' = Some (0, 100)
   \<and> hpAfter (applyEvent exState (Damage ''p1'' 30 no_meta)) ''p1'' = Some (60, 100)"
proof -
  have h: "getActiveCreature exState ''p1'' = Some ((makeCreature ''Caster'' [''tackle''])\<lparr>hp := 90\<rparr>)"
    by (simp add: exState_def state_defs)
  have c: "hp ((makeCreature ''Caster'' [''tackle''])\<lparr>hp := 90\<rparr>) = 90"
          "maxHp ((makeCreature ''Caster'' [''tackle''])\<lparr>hp := 90\<rparr>) = 100"
    by (simp_all add: makeCreature_def)
  show ?thesis
    using h damage_event [OF h, of 90 no_meta] damage_event [OF h, of 30 no_meta]
    by (auto simp add: hpAfter_def c)
qed

text \<open>
  The claim as stated fails: healing is not clamped. A creature at 90 of 100 hit points
  that takes a \<open>damage\<close> event of amount \<open>-20\<close> ends at 110 hit points.
\<close>

theorem damage_heal_not_clamped:
  "hpAfter (applyEvent exState (Damage ''p1'' (- 20) no_meta)) ''p1'' = Some (110, 100)"
  by (simp add: hpAfter_def exState_def state_defs)

section \<open>The switch event\<close>

lemma switchOut_props:
  "stages (switchOut c) = zeroStages"
  "statuses (switchOut c) = filter (\<lambda>s. sid s \<in> set NON_VOLATILE) (statuses c)"
  "abilityData (switchOut c) = []" "copiedAbility (switchOut c) = None"
  "volatileData (switchOut c) = no_vdata" "hp (switchOut c) = hp c" "cname (switchOut c) = cname c"
  by (simp_all add: switchOut_def)

text \<open>
  C10. For a \<open>switch\<close> event naming an existing player: when the slot is an index of the
  player's team the applier succeeds; the outgoing creature (if the old active slot holds
  one) has every stage zero, only its primary statuses left, and its ability and volatile
  scratch cleared; the other team members are untouched; \<open>activeSlot\<close> is the slot; one log
  line is appended. When the slot is missing or not an index of the team, the applier
  raises a TypeError (reading \<open>incoming.name\<close>) instead of returning a state.
\<close>

theorem switch_event:
  assumes "findPlayer st i = Some p"
  shows "(\<forall>s incoming. slot = Some s \<and> teamAt (team p) s = Some incoming \<longrightarrow>
           (\<exists>st' p'. applyEvent st (Switch i slot) = Inr st'
              \<and> findPlayer st' i = Some p' \<and> activeSlot p' = s
              \<and> length (team p') = length (team p)
              \<and> (\<forall>out. teamAt (team p) (activeSlot p) = Some out \<longrightarrow>
                    (\<exists>c'. teamAt (team p') (activeSlot p) = Some c'
                       \<and> list_all (\<lambda>kv. snd kv = 0) (stages c')
                       \<and> statuses c' = filter (\<lambda>s. sid s \<in> set NON_VOLATILE) (statuses out)
                       \<and> abilityData c' = [] \<and> copiedAbility c' = None
                       \<and> volatileData c' = no_vdata))
              \<and> (\<forall>j. j \<noteq> activeSlot p \<longrightarrow> teamAt (team p') j = teamAt (team p) j)
              \<and> global st' = global st \<and> turn st' = turn st
              \<and> log_lines st' = log_lines st @ [pname p @ '' sent out '' @ cname incoming @ ''!'']))
       \<and> ((slot = None \<or> (\<exists>s. slot = Some s \<and> teamAt (team p) s = None)) \<longrightarrow>
             applyEvent st (Switch i slot) = Inl TypeError)"
proof -
  have pid_p: "pid p = i"
    using assms by (auto simp: findPlayer_def dest: find_Some_iff [THEN iffD1])
  have fp: "findPlayer (updPlayer i (\<lambda>p. p\<lparr>activeSlot := s\<rparr>) (updActive i switchOut st)) i
      = Some (p\<lparr>team := updTeamAt (activeSlot p) switchOut (team p), activeSlot := s\<rparr>)" for s
    using assms by (simp add: findPlayer_updPlayer findPlayer_updActive)
  show ?thesis
    using assms
    by (auto simp add: fp teamAt_updTeamAt teamAt_updTeamAt_other switchOut_props zeroStages_def
        split: option.splits)
qed

theorem switch_event_witness:
  "map_option pname (findPlayer exState ''p1'') = Some ''A''
   \<and> map_option activeSlot
        (case applyEvent exState (Switch ''p1'' (Some 1)) of Inl e \<Rightarrow> None
         | Inr st' \<Rightarrow> findPlayer st' ''p1'') = Some 1
   \<and> applyEvent exState (Switch ''p1'' (Some 2)) = Inl TypeError
   \<and> applyEvent exState (Switch ''p1'' None) = Inl TypeError"
proof -
  let ?p = "\<lparr>pid = ''p1'', pname = ''A'',
     team = [(makeCreature ''Caster'' [''tackle''])\<lparr>hp := 90\<rparr>, makeCreature ''Bench'' []],
     activeSlot = 0, lastFaintedAbility = None\<rparr>"
  have h: "findPlayer exState ''p1'' = Some ?p"
    by (simp add: exState_def state_defs)
  have t: "teamAt (team ?p) 1 = Some (makeCreature ''Bench'' [])" "teamAt (team ?p) 2 = None"
    by (simp_all add: teamAt_def)
  show ?thesis
    using h t switch_event [OF h, of "Some 1"] switch_event [OF h, of "Some 2"]
      switch_event [OF h, of None]
    by auto
qed

section \<open>The random source\<close>


lemma advance_0 [simp]: "advance 0 rs = rs"
  by (simp add: advance_def)

lemma future_advance [simp]: "future (advance k rs) n = future rs (n + k)"
  by (simp add: advance_def)

lemma drawn_advance [simp]: "drawn (advance k rs) = drawn rs @ map (future rs) [0..<k]"
  by (simp add: advance_def)





lemma future_testRng [simp]: "future (testRng xs) = makeRng xs 0" "drawn (testRng xs) = []"
  by (simp_all add: testRng_def)

section \<open>Protect\<close>



section \<open>damage_ratio\<close>

lemma damage_ratio_amount:
  assumes "getActiveCreature st (resolveTarget tgt c) = Some tc"
  shows "applyEffect c (EDamageRatio tgt ratio) st rs =
           Inr ([Damage (resolveTarget tgt c)
                   (max 1 \<lfloor>of_int (maxHp tc) * (case ratio of None \<Rightarrow> 0 | Some r \<Rightarrow> r)\<rfloor>)
                   ((srcMeta c)\<lparr>m_target := Some (resolveTarget tgt c), m_cancellable := True\<rparr>)],
                st, rs)"
  using assms by (simp add: applySimple_def eff_damage_ratio_def Let_def)

lemma damage_ratio_negative:
  assumes "getActiveCreature st (resolveTarget tgt c) = Some tc" and "r < 0" and "0 \<le> maxHp tc"
  shows "\<exists>m. applyEffect c (EDamageRatio tgt (Some r)) st rs = Inr ([Damage (resolveTarget tgt c) 1 m], st, rs)"
proof -
  have "of_int (maxHp tc) * r \<le> 0"
    using assms(2,3) by (simp add: mult_nonneg_nonpos)
  hence "\<lfloor>of_int (maxHp tc) * r\<rfloor> \<le> 0"
    by (simp add: floor_le_zero)
  hence "max 1 \<lfloor>of_int (maxHp tc) * r\<rfloor> = 1"
    by simp
  thus ?thesis
    using damage_ratio_amount [OF assms(1), of "Some r" rs] by simp
qed

text \<open>
  C5 at a failing input. The active creature of \<open>p1\<close> has 90 of 100 hit points. A
  \<open>damage_ratio\<close> effect on itself with \<open>ratioMaxHp = -1/2\<close> compiles to a damage event of
  amount \<open>max 1 (-50) = 1\<close>, and applying it leaves 89 hit points: the effect costs one hit
  point instead of healing.
\<close>

theorem damage_ratio_negative_hurts:
  "applyEffect (mkCtx exState ''p1'' ''p2'' None) (EDamageRatio (Some ''self'') (Some (- 1 / 2)))
       exState (testRng [])
     = Inr ([Damage ''p1'' 1
               (no_meta\<lparr>m_source := Some ''p1'', m_target := Some ''p1'', m_cancellable := True\<rparr>)],
            exState, testRng [])
   \<and> hpAfter (applyEvent exState (Damage ''p1'' 1
               (no_meta\<lparr>m_source := Some ''p1'', m_target := Some ''p1'', m_cancellable := True\<rparr>)))
        ''p1'' = Some (89, 100)"
  by (simp add: applySimple_def eff_damage_ratio_def resolveTarget_def mkCtx_def srcMeta_def
      moveId_def no_meta_def hpAfter_def exState_def state_defs)

section \<open>Weather\<close>

lemma setWeather_sun_rain:
  "filter (\<lambda>i. i = ''sun'' \<or> i = ''rain'') (map sid (global (setWeather st ''sun'' n))) = [''sun'']"
  "filter (\<lambda>i. i = ''sun'' \<or> i = ''rain'') (map sid (global (setWeather st ''rain'' n))) = [''rain'']"
  by (auto simp add: setWeather_def mkStatus_def filter_map comp_def filter_empty_conv)

text \<open>
  C6 at two failing inputs. \<open>setWeather\<close> removes only \<open>sun\<close> and \<open>rain\<close> entries: on a field
  under hail it leaves hail and adds sun. The \<open>apply_field_status\<close> event replaces only an
  entry of the same id: applied with \<open>rain\<close> to a field under sun (set by \<open>setWeather\<close>, as
  Drought does) it leaves sun and adds rain. Both fields hold two weather entries.
\<close>

theorem weather_not_unique:
  "weatherEntries (setWeather (exState\<lparr>global := [mkStatus ''hail'' (Some 3) no_data]\<rparr>) ''sun'' (Some 5))
     = [''hail'', ''sun'']
   \<and> (case applyEvent (setWeather exState ''sun'' (Some 5))
              (ApplyFieldStatus ''rain'' (Some 5) False no_data no_meta) of
         Inl e \<Rightarrow> [] | Inr st' \<Rightarrow> weatherEntries st') = [''sun'', ''rain'']"
  by (simp add: weatherEntries_def setWeather_def mkStatus_def exState_def createBattleState_def)

section \<open>Facts about the example states\<close>

lemma mkCtx_simps [simp]:
  "attackerPlayerId (mkCtx st a t m) = a" "targetPlayerId (mkCtx st a t m) = t"
  "c_move (mkCtx st a t m) = m" "c_attacker (mkCtx st a t m) = getActiveCreature st a"
  "c_target (mkCtx st a t m) = getActiveCreature st t" "c_turn (mkCtx st a t m) = Some (turn st)"
  by (simp_all add: mkCtx_def)




section \<open>Type effectiveness and the damage effect\<close>














section \<open>Order of the random draws\<close>







section \<open>The creature factory\<close>

text \<open>
  C9 (as the code has it). \<open>createCreature\<close> computes every stat with \<open>calcStat\<close> at level 50,
  IV 31 and EV 0, whatever the options say: an \<open>evs\<close> option changes nothing in the result,
  and the only failures are those of the move validation. There is no EV cap check.
\<close>

theorem createCreature_stats:
  "createCreature ls known sfx sp (opts\<lparr>o_evs := e\<rparr>) = createCreature ls known sfx sp opts
   \<and> (case createCreature ls known sfx sp opts of
         Inl err \<Rightarrow> validateMoves ls known (sp_id sp)
                      (case o_moves opts of None \<Rightarrow> [] | Some ms \<Rightarrow> ms) = Inl err
       | Inr c \<Rightarrow>
           maxHp c = calcStat (bs_hp (sp_baseStats sp)) True 31 0 \<and> hp c = maxHp c
           \<and> attack c = calcStat (bs_atk (sp_baseStats sp)) False 31 0
           \<and> defense c = calcStat (bs_def (sp_baseStats sp)) False 31 0
           \<and> spAttack c = calcStat (bs_spa (sp_baseStats sp)) False 31 0
           \<and> spDefense c = calcStat (bs_spd (sp_baseStats sp)) False 31 0
           \<and> speed c = calcStat (bs_spe (sp_baseStats sp)) False 31 0)
   \<and> calcStat base True 31 0 = (base * 2 + 31) * 50 div 100 + 60
   \<and> calcStat base False 31 0 = (base * 2 + 31) * 50 div 100 + 5"
  by (simp add: createCreature_def calcStat_def Let_def split: sum.splits)


text \<open>
  The claim as stated fails: with EVs of 300 and 252 (over the per-stat cap) the factory
  returns a creature, with the stats of EV 0 (attack 75 for base 55, where EV 252 would give
  107).
\<close>

theorem evs_not_validated:
  "(case createCreature (\<lambda>s. None) (\<lambda>m. False) ''k3x9a'' pikachu
           (noOptions\<lparr>o_evs := Some \<lparr>ev_hp = 300, ev_atk = 252, ev_def = 0, ev_spa = 0, ev_spd = 0,
                                       ev_spe = 0\<rparr>\<rparr>) of
      Inl e \<Rightarrow> None | Inr c \<Rightarrow> Some (maxHp c, attack c))
   = Some (110, 75)
   \<and> calcStat 55 False 31 252 = 107"
  by (simp add: createCreature_def validateMoves_def calcStat_def pikachu_def noOptions_def Let_def)

section \<open>The order of the actions\<close>











section \<open>Replay\<close>

text \<open>
  C1 at a failing input. Both players switch to their second creature; the source answers
  0.9 and then 0.1. The tie of the two switches (priority 10000, speed 0) is broken by the
  numbers drawn in the order of submission, so \<open>p2\<close> goes first, and the history records
  the actions in the executed order \<open>p2\<close>, \<open>p1\<close> with the draws 0.9, 0.1. The replay submits
  the recorded actions, so 0.9 now goes to \<open>p2\<close> and 0.1 to \<open>p1\<close>: \<open>p1\<close> goes first and the
  log of the replay differs from the log of the run. The replayed state also has no
  history, which the run has.
\<close>

theorem replay_diverges:
  "finalLog (runTurns [] benchState [[switchTo ''p1'' 1, switchTo ''p2'' 1]]
               (makeRng [9 / 10, 1 / 10] 0))
     = Some [''--- Turn 1 ---'', ''B sent out B2!'', ''A sent out A2!'']
   \<and> map_option (map t_rng)
        (recorded (runTurns [] benchState [[switchTo ''p1'' 1, switchTo ''p2'' 1]]
                     (makeRng [9 / 10, 1 / 10] 0)))
     = Some [[9 / 10, 1 / 10]]
   \<and> map_option (map (map a_playerId)) (map_option (map t_actions)
        (recorded (runTurns [] benchState [[switchTo ''p1'' 1, switchTo ''p2'' 1]]
                     (makeRng [9 / 10, 1 / 10] 0))))
     = Some [[''p2'', ''p1'']]
   \<and> replayLog (replayBattle [] benchState
        (recorded (runTurns [] benchState [[switchTo ''p1'' 1, switchTo ''p2'' 1]]
                     (makeRng [9 / 10, 1 / 10] 0))) noEntropy)
     = Some [''--- Turn 1 ---'', ''A sent out A2!'', ''B sent out B2!'']
   \<and> replayHistory (replayBattle [] benchState
        (recorded (runTurns [] benchState [[switchTo ''p1'' 1, switchTo ''p2'' 1]]
                     (makeRng [9 / 10, 1 / 10] 0))) noEntropy)
     = Some None"
  by code_simp


end
